theory Spec2Isabelle
  imports Main
begin

section \<open>Errors\<close>

text \<open>
  Every exception the two modules raise or let through. The source raises
  \<open>ValueError(message)\<close> for each parser failure, so the message is what tells those
  failures apart; \<open>FloatValueError\<close> is the \<open>ValueError\<close> that the builtin
  \<open>float()\<close> raises itself, carrying the text it rejected. A \<open>pint_error\<close> is
  an exception raised inside the unit registry: the two the source imports, and any
  other.
\<close>

datatype pint_error =
    UndefinedUnitError string
  | DimensionalityError string string
  | OtherPintError string

datatype error =
    ValueError string
  | FloatValueError string
  | NoToUnits
  | PintError pint_error
  | IndexError
  | OverflowError
  | UnboundLocalError

section \<open>Python strings\<close>

text \<open>
  A \<open>str\<close> is a list of characters with code points below 256.
  \<open>py_isspace\<close> is \<open>str.isspace\<close> on one character in that range, which is
  what \<open>str.strip\<close> and \<open>str.split\<close> drop. \<open>split\<close> is
  \<open>str.split()\<close> without arguments and \<open>replace\<close> is \<open>str.replace\<close>.
\<close>

definition py_isspace :: "char \<Rightarrow> bool" where
  "py_isspace c \<longleftrightarrow>
     c \<in> set [CHR 0x09, CHR 0x0A, CHR 0x0B, CHR 0x0C, CHR 0x0D, CHR 0x1C, CHR 0x1D, CHR 0x1E,
              CHR 0x1F, CHR '' '', CHR 0x85, CHR 0xA0]"

definition strip :: "string \<Rightarrow> string" where
  "strip s = rev (dropWhile py_isspace (rev (dropWhile py_isspace s)))"

fun split_from :: "string \<Rightarrow> string \<Rightarrow> string list" where
  "split_from tok [] = (if tok = [] then [] else [tok])"
| "split_from tok (c # cs) =
     (if py_isspace c then (if tok = [] then split_from [] cs else tok # split_from [] cs)
      else split_from (tok @ [c]) cs)"

definition split :: "string \<Rightarrow> string list" where
  "split s = split_from [] s"

fun replace :: "string \<Rightarrow> string \<Rightarrow> string \<Rightarrow> string" where
  "replace old new [] = (if old = [] then new else [])"
| "replace old new (c # cs) =
     (if old = [] then new @ c # replace old new cs
      else if take (length old) (c # cs) = old
           then new @ replace old new (drop (length old) (c # cs))
      else c # replace old new cs)"

section \<open>Python floats\<close>

text \<open>
  A \<open>float\<close> is a binary64 number: \<open>Finite s m e\<close> is \<open>m\<close> times two to the
  power \<open>e\<close>, negative when \<open>s\<close> holds, where \<open>m\<close> is below \<open>2 ^ 53\<close> and
  \<open>e\<close> lies between \<open>- 1074\<close> and \<open>971\<close>, and where \<open>m\<close> is at least
  \<open>2 ^ 52\<close> unless \<open>e = - 1074\<close>; the two zeros are \<open>Finite s 0 0\<close>.
  \<open>float_of_frac s a b\<close> is the float nearest to the fraction \<open>a / b\<close>
  (with \<open>b > 0\<close>), ties going to the even significand, which is how \<open>float()\<close>,
  the conversion of an \<open>int\<close> and multiplication round.
\<close>

datatype pyfloat = Finite bool nat int | Infinity bool | NaN

function bit_length :: "nat \<Rightarrow> nat" where
  "bit_length n = (if n = 0 then 0 else 1 + bit_length (n div 2))"
  by pat_completeness auto
termination
  by (relation "measure id") auto

declare bit_length.simps [simp del]

definition round_quotient :: "nat \<Rightarrow> nat \<Rightarrow> nat \<Rightarrow> nat" where
  "round_quotient q r b =
     (if 2 * r < b then q else if b < 2 * r then q + 1 else if even q then q else q + 1)"

definition div_half_even :: "nat \<Rightarrow> nat \<Rightarrow> nat" where
  "div_half_even a b = round_quotient (a div b) (a mod b) b"

definition floor_log_adjust :: "nat \<Rightarrow> nat \<Rightarrow> nat \<Rightarrow> int \<Rightarrow> int" where
  "floor_log_adjust base a b k = (if b * base ^ nat k \<le> a * base ^ nat (- k) then k else k - 1)"

definition floor_log2 :: "nat \<Rightarrow> nat \<Rightarrow> int" where
  "floor_log2 a b = floor_log_adjust 2 a b (int (bit_length a) - int (bit_length b))"

definition pack :: "bool \<Rightarrow> nat \<Rightarrow> int \<Rightarrow> pyfloat" where
  "pack neg m e =
     (if m = 0 then Finite neg 0 0
      else if m = 2 ^ 53 then (if 971 < e + 1 then Infinity neg else Finite neg (2 ^ 52) (e + 1))
      else if 971 < e then Infinity neg
      else Finite neg m e)"

definition round_at :: "bool \<Rightarrow> nat \<Rightarrow> nat \<Rightarrow> int \<Rightarrow> pyfloat" where
  "round_at neg a b e = pack neg (div_half_even (a * 2 ^ nat (- e)) (b * 2 ^ nat e)) e"

definition float_of_frac :: "bool \<Rightarrow> nat \<Rightarrow> nat \<Rightarrow> pyfloat" where
  "float_of_frac neg a b =
     (if a = 0 then Finite neg 0 0 else round_at neg a b (max (floor_log2 a b - 52) (- 1074)))"

subsection \<open>float(): text to float\<close>

text \<open>
  \<open>py_float\<close> is \<open>float(s)\<close> on a string, \<open>None\<close> standing for its
  \<open>ValueError\<close>: surrounding whitespace is dropped, underscores are accepted between
  two digits, and what remains is a sign followed by \<open>inf\<close>, \<open>infinity\<close>,
  \<open>nan\<close> or a decimal number with an optional exponent. The whitespace
  \<open>float\<close> drops is narrower than that of \<open>str.strip\<close>: the four separator
  characters \<open>0x1C\<close> to \<open>0x1F\<close> are not part of it, and a text that starts or
  ends with one is rejected.
\<close>

definition float_isspace :: "char \<Rightarrow> bool" where
  "float_isspace c \<longleftrightarrow>
     c \<in> set [CHR 0x09, CHR 0x0A, CHR 0x0B, CHR 0x0C, CHR 0x0D, CHR '' '', CHR 0x85, CHR 0xA0]"

definition float_strip :: "string \<Rightarrow> string" where
  "float_strip s = rev (dropWhile float_isspace (rev (dropWhile float_isspace s)))"

definition is_digit :: "char \<Rightarrow> bool" where
  "is_digit c \<longleftrightarrow> c \<in> set ''0123456789''"

definition digit_value :: "char \<Rightarrow> nat" where
  "digit_value c =
     (case map_of [(CHR ''0'', 0), (CHR ''1'', 1), (CHR ''2'', 2), (CHR ''3'', 3), (CHR ''4'', 4),
                   (CHR ''5'', 5), (CHR ''6'', 6), (CHR ''7'', 7), (CHR ''8'', 8), (CHR ''9'', 9)] c of
        Some d \<Rightarrow> d
      | None \<Rightarrow> 0)"

definition nat_of_digits :: "string \<Rightarrow> nat" where
  "nat_of_digits s = foldl (\<lambda>a c. 10 * a + digit_value c) 0 s"

definition to_lower :: "char \<Rightarrow> char" where
  "to_lower c =
     (case map_of (zip ''ABCDEFGHIJKLMNOPQRSTUVWXYZ'' ''abcdefghijklmnopqrstuvwxyz'') c of
        Some l \<Rightarrow> l
      | None \<Rightarrow> c)"

fun drop_underscores :: "char option \<Rightarrow> string \<Rightarrow> string option" where
  "drop_underscores prev [] = (if prev = Some CHR ''_'' then None else Some [])"
| "drop_underscores prev (c # cs) =
     (if c = CHR ''_'' then
        (case prev of
           Some p \<Rightarrow> if is_digit p then drop_underscores (Some c) cs else None
         | None \<Rightarrow> None)
      else if prev = Some CHR ''_'' \<and> \<not> is_digit c then None
      else map_option ((#) c) (drop_underscores (Some c) cs))"

fun take_sign :: "string \<Rightarrow> bool \<times> string" where
  "take_sign [] = (False, [])"
| "take_sign (c # cs) =
     (if c = CHR ''-'' then (True, cs) else if c = CHR ''+'' then (False, cs) else (False, c # cs))"

definition signed_digits :: "bool \<times> string \<Rightarrow> int option" where
  "signed_digits p =
     (case p of (neg, ds) \<Rightarrow>
        if ds \<noteq> [] \<and> list_all is_digit ds
        then Some (if neg then - int (nat_of_digits ds) else int (nat_of_digits ds))
        else None)"

fun parse_exponent :: "string \<Rightarrow> int option" where
  "parse_exponent [] = Some 0"
| "parse_exponent (c # cs) =
     (if c = CHR ''e'' \<or> c = CHR ''E'' then signed_digits (take_sign cs) else None)"

definition decimal_value :: "bool \<Rightarrow> nat \<Rightarrow> int \<Rightarrow> pyfloat" where
  "decimal_value neg d e10 = float_of_frac neg (d * 10 ^ nat e10) (10 ^ nat (- e10))"

definition parse_scaled :: "bool \<Rightarrow> string \<Rightarrow> string \<Rightarrow> string \<Rightarrow> pyfloat option" where
  "parse_scaled neg ip fp rest =
     (if ip = [] \<and> fp = [] then None
      else case parse_exponent rest of
             None \<Rightarrow> None
           | Some x \<Rightarrow> Some (decimal_value neg (nat_of_digits (ip @ fp)) (x - int (length fp))))"

fun parse_fraction :: "bool \<Rightarrow> string \<Rightarrow> string \<Rightarrow> pyfloat option" where
  "parse_fraction neg ip [] = parse_scaled neg ip [] []"
| "parse_fraction neg ip (c # cs) =
     (if c = CHR ''.'' then parse_scaled neg ip (takeWhile is_digit cs) (dropWhile is_digit cs)
      else parse_scaled neg ip [] (c # cs))"

definition parse_decimal :: "bool \<Rightarrow> string \<Rightarrow> pyfloat option" where
  "parse_decimal neg s = parse_fraction neg (takeWhile is_digit s) (dropWhile is_digit s)"

definition parse_signed :: "bool \<times> string \<Rightarrow> pyfloat option" where
  "parse_signed p =
     (case p of (neg, body) \<Rightarrow>
        if map to_lower body = ''inf'' \<or> map to_lower body = ''infinity'' then Some (Infinity neg)
        else if map to_lower body = ''nan'' then Some NaN
        else parse_decimal neg body)"

definition py_float :: "string \<Rightarrow> pyfloat option" where
  "py_float s =
     (case drop_underscores None (float_strip s) of
        None \<Rightarrow> None
      | Some t \<Rightarrow> parse_signed (take_sign t))"


subsection \<open>Arithmetic and comparison\<close>

text \<open>
  \<open>float_mul_int\<close> is \<open>x * i\<close> for a float and an \<open>int\<close>: the \<open>int\<close>
  is converted first, which raises \<open>OverflowError\<close> when it is too large.
  \<open>float_ge_int\<close> is \<open>x >= i\<close> and \<open>float_eq_zero\<close> is \<open>x == 0.0\<close>.
\<close>

definition float_of_int :: "int \<Rightarrow> error + pyfloat" where
  "float_of_int i =
     (case float_of_frac (i < 0) (nat \<bar>i\<bar>) 1 of
        Infinity _ \<Rightarrow> Inl OverflowError
      | x \<Rightarrow> Inr x)"

fun float_mul :: "pyfloat \<Rightarrow> pyfloat \<Rightarrow> pyfloat" where
  "float_mul (Finite s1 m1 e1) (Finite s2 m2 e2) =
     float_of_frac (s1 \<noteq> s2) (m1 * m2 * 2 ^ nat (e1 + e2)) (2 ^ nat (- (e1 + e2)))"
| "float_mul (Finite s1 m1 e1) (Infinity s2) = (if m1 = 0 then NaN else Infinity (s1 \<noteq> s2))"
| "float_mul (Infinity s1) (Finite s2 m2 e2) = (if m2 = 0 then NaN else Infinity (s1 \<noteq> s2))"
| "float_mul (Infinity s1) (Infinity s2) = Infinity (s1 \<noteq> s2)"
| "float_mul NaN _ = NaN"
| "float_mul _ NaN = NaN"

definition float_mul_int :: "pyfloat \<Rightarrow> int \<Rightarrow> error + pyfloat" where
  "float_mul_int x i = (case float_of_int i of Inl err \<Rightarrow> Inl err | Inr y \<Rightarrow> Inr (float_mul x y))"

fun float_ge_int :: "pyfloat \<Rightarrow> int \<Rightarrow> bool" where
  "float_ge_int (Finite s m e) i =
     (i * 2 ^ nat (- e) \<le> (if s then - int m else int m) * 2 ^ nat e)"
| "float_ge_int (Infinity s) i = (\<not> s)"
| "float_ge_int NaN i = False"

fun float_eq_zero :: "pyfloat \<Rightarrow> bool" where
  "float_eq_zero (Finite s m e) = (m = 0)"
| "float_eq_zero _ = False"

subsection \<open>str(): float to text\<close>

text \<open>
  \<open>float_repr\<close> is \<open>str(x)\<close> of Python 3: the shortest decimal that reads back
  as the same float (the nearest one, if several do), written with an exponent when the
  decimal point would fall more than 16 digits to the right or more than 4 to the left.
\<close>

definition digit_char :: "nat \<Rightarrow> char" where
  "digit_char d = ''0123456789'' ! d"

function digits_of :: "nat \<Rightarrow> string" where
  "digits_of n = (if n < 10 then [digit_char n] else digits_of (n div 10) @ [digit_char (n mod 10)])"
  by pat_completeness auto
termination
  by (relation "measure id") auto

declare digits_of.simps [simp del]

definition floor_log10 :: "nat \<Rightarrow> nat \<Rightarrow> int" where
  "floor_log10 a b =
     floor_log_adjust 10 a b (int (length (digits_of a)) - int (length (digits_of b)))"

text \<open>
  The decimals with \<open>n\<close> significant digits next to \<open>a / b\<close> are
  \<open>repr_below a b j\<close> units of ten to the power \<open>j\<close>, and one unit more.
\<close>

definition repr_scale :: "nat \<Rightarrow> nat \<Rightarrow> int \<Rightarrow> int" where
  "repr_scale a b n = floor_log10 a b - n + 1"

definition repr_below :: "nat \<Rightarrow> nat \<Rightarrow> int \<Rightarrow> nat" where
  "repr_below a b j = (a * 10 ^ nat (- j)) div (b * 10 ^ nat j)"

definition below_is_nearer :: "nat \<Rightarrow> nat \<Rightarrow> int \<Rightarrow> bool" where
  "below_is_nearer a b j =
     (round_quotient (repr_below a b j) ((a * 10 ^ nat (- j)) mod (b * 10 ^ nat j)) (b * 10 ^ nat j)
        = repr_below a b j)"

definition reads_back :: "bool \<Rightarrow> nat \<Rightarrow> int \<Rightarrow> nat \<Rightarrow> int \<Rightarrow> bool" where
  "reads_back neg m e c j \<longleftrightarrow> decimal_value neg c j = Finite neg m e"

definition repr_choose :: "bool \<Rightarrow> bool \<Rightarrow> bool \<Rightarrow> nat \<Rightarrow> int \<Rightarrow> (nat \<times> int) option" where
  "repr_choose ok_lo ok_hi lo_nearer lo j =
     (if ok_lo \<and> (\<not> ok_hi \<or> lo_nearer) then Some (lo, j)
      else if ok_hi then Some (lo + 1, j)
      else None)"

definition repr_try_at :: "bool \<Rightarrow> nat \<Rightarrow> int \<Rightarrow> nat \<Rightarrow> nat \<Rightarrow> int \<Rightarrow> (nat \<times> int) option" where
  "repr_try_at neg m e a b j =
     repr_choose (reads_back neg m e (repr_below a b j) j)
                 (reads_back neg m e (repr_below a b j + 1) j)
                 (below_is_nearer a b j) (repr_below a b j) j"

definition repr_try :: "bool \<Rightarrow> nat \<Rightarrow> int \<Rightarrow> int \<Rightarrow> (nat \<times> int) option" where
  "repr_try neg m e n =
     repr_try_at neg m e (m * 2 ^ nat e) (2 ^ nat (- e))
       (repr_scale (m * 2 ^ nat e) (2 ^ nat (- e)) n)"

definition repr_nearest_at :: "nat \<Rightarrow> nat \<Rightarrow> int \<Rightarrow> nat \<times> int" where
  "repr_nearest_at a b j =
     (if below_is_nearer a b j then (repr_below a b j, j) else (repr_below a b j + 1, j))"

definition repr_nearest :: "nat \<Rightarrow> int \<Rightarrow> int \<Rightarrow> nat \<times> int" where
  "repr_nearest m e n =
     repr_nearest_at (m * 2 ^ nat e) (2 ^ nat (- e)) (repr_scale (m * 2 ^ nat e) (2 ^ nat (- e)) n)"

function shortest_digits :: "bool \<Rightarrow> nat \<Rightarrow> int \<Rightarrow> int \<Rightarrow> nat \<times> int" where
  "shortest_digits neg m e n =
     (case repr_try neg m e n of
        Some c \<Rightarrow> c
      | None \<Rightarrow> if 17 \<le> n then repr_nearest m e n else shortest_digits neg m e (n + 1))"
  by pat_completeness auto
termination
  by (relation "measure (\<lambda>(neg, m, e, n). nat (17 - n))") auto

declare shortest_digits.simps [simp del]

definition strip_zeros :: "string \<Rightarrow> string" where
  "strip_zeros s = rev (dropWhile (\<lambda>c. c = CHR ''0'') (rev s))"

definition pad2 :: "string \<Rightarrow> string" where
  "pad2 s = (if length s < 2 then ''0'' @ s else s)"

definition repr_layout :: "string \<Rightarrow> int \<Rightarrow> string" where
  "repr_layout ds decpt =
     (if decpt \<le> - 4 \<or> 16 < decpt then
        take 1 ds @ (if drop 1 ds = [] then [] else ''.'' @ drop 1 ds) @ ''e'' @
        (if decpt - 1 < 0 then ''-'' else ''+'') @ pad2 (digits_of (nat \<bar>decpt - 1\<bar>))
      else if decpt \<le> 0 then ''0.'' @ replicate (nat (- decpt)) CHR ''0'' @ ds
      else if int (length ds) \<le> decpt
        then ds @ replicate (nat (decpt - int (length ds))) CHR ''0'' @ ''.0''
      else take (nat decpt) ds @ ''.'' @ drop (nat decpt) ds)"

definition repr_digits :: "nat \<times> int \<Rightarrow> string" where
  "repr_digits p =
     (case p of (c, j) \<Rightarrow> repr_layout (strip_zeros (digits_of c)) (int (length (digits_of c)) + j))"

fun float_repr :: "pyfloat \<Rightarrow> string" where
  "float_repr NaN = ''nan''"
| "float_repr (Infinity neg) = (if neg then ''-inf'' else ''inf'')"
| "float_repr (Finite neg m e) =
     (if neg then ''-'' else '''') @
     (if m = 0 then ''0.0'' else repr_digits (shortest_digits neg m e 1))"

declare float_repr.simps [simp del]

subsection \<open>Fixed-point formatting\<close>

text \<open>
  \<open>format_f grouping p x\<close> is \<open>'{:0,.pf}'.format(x)\<close>, or \<open>'{:0.pf}'.format(x)\<close>
  without grouping: \<open>x\<close> rounded to \<open>p\<close> decimals, ties to even, the integer
  digits grouped in threes by commas. The leading \<open>0\<close> of the format asks for zero
  padding, which without a width adds nothing.
\<close>

fun group_from_right :: "string \<Rightarrow> string" where
  "group_from_right (a # b # c # d # rest) = a # b # c # CHR '','' # group_from_right (d # rest)"
| "group_from_right s = s"

definition group_thousands :: "string \<Rightarrow> string" where
  "group_thousands s = rev (group_from_right (rev s))"

definition zero_fill :: "nat \<Rightarrow> string \<Rightarrow> string" where
  "zero_fill p s = replicate (p - length s) CHR ''0'' @ s"

definition fixed_layout :: "bool \<Rightarrow> bool \<Rightarrow> nat \<Rightarrow> nat \<Rightarrow> string" where
  "fixed_layout grouping neg p q =
     (if neg then ''-'' else '''') @
     (if grouping then group_thousands (digits_of (q div 10 ^ p)) else digits_of (q div 10 ^ p)) @
     (if p = 0 then '''' else ''.'' @ zero_fill p (digits_of (q mod 10 ^ p)))"

fun format_f :: "bool \<Rightarrow> nat \<Rightarrow> pyfloat \<Rightarrow> string" where
  "format_f grouping p NaN = ''nan''"
| "format_f grouping p (Infinity neg) = (if neg then ''-inf'' else ''inf'')"
| "format_f grouping p (Finite neg m e) =
     fixed_layout grouping neg p (div_half_even (m * 2 ^ nat e * 10 ^ p) (2 ^ nat (- e)))"

declare format_f.simps [simp del]

text \<open>
  \<open>format_fixed grouping p x\<close> is the call \<open>fmt.format(x)\<close> as a whole, for the
  format with precision \<open>p\<close>: a precision above \<open>2147483647\<close> is refused with a
  \<open>ValueError\<close>, whatever the number, and one above \<open>9223372036854775807\<close> is
  refused already when the format is read. Running out of memory is not modelled.
\<close>

definition format_fixed :: "bool \<Rightarrow> nat \<Rightarrow> pyfloat \<Rightarrow> error + string" where
  "format_fixed grouping p x =
     (if 9223372036854775807 < p then Inl (ValueError ''Too many decimal digits in format string'')
      else if 2147483647 < p then Inl (ValueError ''precision too big'')
      else Inr (format_f grouping p x))"

section \<open>defaults.py: default units per dimensionality\<close>

text \<open>
  \<open>Defaults\<close> keeps a \<open>defaultdict(list)\<close> whose values are list objects; the
  same list objects are reachable from the settings mapping (\<open>_load\<close> copies the
  references with \<open>update\<close>, \<open>_save\<close> stores \<open>dict(self._defs)\<close>, a
  shallow copy). Lists are therefore objects in a store, named by references; the
  dictionaries are never shared and are plain maps. \<open>next_ref\<close> is the first
  reference not yet handed out.

  The settings collaborator is given by the one entry the module uses,
  \<open>default_units\<close>, and by the log of what each assignment to it persisted.
\<close>

type_synonym ref = nat

record Defaults =
  lists :: "ref \<Rightarrow> string list"
  next_ref :: ref
  default_units :: "(string \<rightharpoonup> ref) option"
  writes :: "(string \<rightharpoonup> string list) list"
  defs :: "string \<rightharpoonup> ref"

definition new_list :: "string list \<Rightarrow> Defaults \<Rightarrow> ref \<times> Defaults" where
  "new_list xs s = (next_ref s, s\<lparr>lists := (lists s)(next_ref s := xs), next_ref := Suc (next_ref s)\<rparr>)"

text \<open>\<open>self._defs[dimensionality]\<close>: a missing key is inserted with a new empty list.\<close>

definition defs_getitem :: "Defaults \<Rightarrow> string \<Rightarrow> ref \<times> Defaults" where
  "defs_getitem s dimensionality =
     (case defs s dimensionality of
        Some r \<Rightarrow> (r, s)
      | None \<Rightarrow> (let (r, s') = new_list [] s in (r, s'\<lparr>defs := (defs s')(dimensionality \<mapsto> r)\<rparr>)))"

text \<open>
  \<open>_load\<close>: a new \<open>defaultdict\<close> holding the entries of
  \<open>settings.get('default_units', {})\<close>; \<open>__init__\<close> stores it in \<open>_defs\<close>.
\<close>

definition Defaults_load :: "Defaults \<Rightarrow> (string \<rightharpoonup> ref)" where
  "Defaults_load s = (case default_units s of None \<Rightarrow> Map.empty | Some m \<Rightarrow> m)"

definition Defaults_init :: "Defaults \<Rightarrow> Defaults" where
  "Defaults_init s = s\<lparr>defs := Defaults_load s\<rparr>"

definition Defaults_save :: "Defaults \<Rightarrow> Defaults" where
  "Defaults_save s =
     s\<lparr>default_units := Some (defs s),
       writes := writes s @ [map_option (lists s) \<circ> defs s]\<rparr>"

definition Defaults_defaults :: "Defaults \<Rightarrow> string \<Rightarrow> ref \<times> Defaults" where
  "Defaults_defaults s dimensionality =
     (let (r, s') = defs_getitem s dimensionality in new_list (lists s' r) s')"

definition Defaults_is_default :: "Defaults \<Rightarrow> string \<Rightarrow> string \<Rightarrow> bool \<times> Defaults" where
  "Defaults_is_default s dimensionality unit =
     (let (r, s') = defs_getitem s dimensionality in (unit \<in> set (lists s' r), s'))"

definition Defaults_add :: "Defaults \<Rightarrow> string \<Rightarrow> string \<Rightarrow> Defaults" where
  "Defaults_add s dimensionality unit =
     (let (present, s1) = Defaults_is_default s dimensionality unit in
      if \<not> present then
        (let (r, s2) = defs_getitem s1 dimensionality;
             s3 = s2\<lparr>lists := (lists s2)(r := lists s2 r @ [unit])\<rparr>
         in Defaults_save s3)
      else s1)"

definition Defaults_remove :: "Defaults \<Rightarrow> string \<Rightarrow> string \<Rightarrow> Defaults" where
  "Defaults_remove s dimensionality unit =
     (let (present, s1) = Defaults_is_default s dimensionality unit in
      if present then
        (let (r, s2) = defs_getitem s1 dimensionality;
             s3 = s2\<lparr>lists := (lists s2)(r := remove1 unit (lists s2 r))\<rparr>
         in Defaults_save s3)
      else s1)"

text \<open>
  What a caller sees of a dimensionality's list without touching the object: the saved
  units in order, none for a missing key.
\<close>

definition saved_units :: "Defaults \<Rightarrow> string \<Rightarrow> string list" where
  "saved_units s dimensionality =
     (case defs s dimensionality of None \<Rightarrow> [] | Some r \<Rightarrow> lists s r)"

text \<open>The settings entry with every reference replaced by the list it names.\<close>

definition persisted :: "Defaults \<Rightarrow> (string \<rightharpoonup> string list) option" where
  "persisted s = map_option (\<lambda>m. map_option (lists s) \<circ> m) (default_units s)"

text \<open>Every reference held by a dictionary has been handed out.\<close>

definition refs_allocated :: "Defaults \<Rightarrow> bool" where
  "refs_allocated s \<longleftrightarrow>
     (\<forall>d r. defs s d = Some r \<longrightarrow> r < next_ref s) \<and>
     (\<forall>m d r. default_units s = Some m \<longrightarrow> m d = Some r \<longrightarrow> r < next_ref s)"

section \<open>convert.py: parsing and converting\<close>

subsection \<open>The unit registry\<close>

text \<open>
  \<open>ureg\<close> is \<open>pint\<close>'s registry, which the module only calls. \<open>unit_info u\<close> is
  what \<open>ureg.Quantity(value, u)\<close> finds for the unit text \<open>u\<close>: its units and its
  dimensionality, both as \<open>unicode()\<close> prints them, or the exception raised; a
  \<open>Quantity\<close> carries these two texts and its magnitude.
  \<open>convert_to\<close> is the magnitude of \<open>ureg.Quantity(value, u).to(ureg.Quantity(1, v))\<close>
  under the enabled contexts, or the exception raised. \<open>has_context\<close> tells whether
  \<open>enable_contexts\<close> accepts a name; the names enabled so far are the registry's
  only state and are passed along.
\<close>

record UnitRegistry =
  unit_info :: "string \<Rightarrow> pint_error + string \<times> string"
  convert_to :: "string list \<Rightarrow> pyfloat \<Rightarrow> string \<Rightarrow> string \<Rightarrow> pint_error + pyfloat"
  has_context :: "string \<Rightarrow> bool"

record Quantity =
  magnitude :: pyfloat
  units_text :: string
  dimensionality_text :: string

definition ureg_Quantity :: "UnitRegistry \<Rightarrow> pyfloat \<Rightarrow> string \<Rightarrow> pint_error + Quantity" where
  "ureg_Quantity ureg v u =
     (case unit_info ureg u of
        Inl err \<Rightarrow> Inl err
      | Inr (us, d) \<Rightarrow> Inr \<lparr>magnitude = v, units_text = us, dimensionality_text = d\<rparr>)"

text \<open>The float \<open>1.0\<close>, to which the \<open>int\<close> \<open>1\<close> of \<open>ureg.Quantity(1, u)\<close> amounts.\<close>

definition one :: pyfloat where
  "one = Finite False (2 ^ 52) (- 52)"

subsection \<open>Input, Formatter and Conversion\<close>

record Input =
  number :: pyfloat
  dimensionality :: string
  from_unit :: string
  to_unit :: "string option"
  "context" :: string

record Formatter =
  decimal_places :: nat
  decimal_separator :: string
  thousands_separator :: string
  dynamic_decimals :: bool

text \<open>
  \<open>decimal_places\<close> is a number of decimal places, so a natural number; the
  separators are strings, as in the source.

  \<open>_decimal_places\<close>. The first loop raises \<open>p\<close> from \<open>decimal_places\<close> while
  \<open>n * 10 ** p\<close> is below 10, at most up to \<open>m\<close>, and leaves the last product in
  \<open>i\<close>; the second drops one from \<open>p\<close> for each trailing \<open>0\<close> of the text
  after the decimal point of \<open>str(i)\<close>, so \<open>p\<close> is an \<open>int\<close> there.
\<close>

function places_loop :: "pyfloat \<Rightarrow> nat \<Rightarrow> nat \<Rightarrow> pyfloat option \<Rightarrow> error + nat \<times> pyfloat option" where
  "places_loop n m p i =
     (if p < m then
        (case float_mul_int n (10 ^ p) of
           Inl err \<Rightarrow> Inl err
         | Inr i' \<Rightarrow> if float_ge_int i' 10 then Inr (p, Some i') else places_loop n m (p + 1) (Some i'))
      else Inr (p, i))"
  by pat_completeness auto
termination
  by (relation "measure (\<lambda>(n, m, p, i). m - p)") auto

declare places_loop.simps [simp del]

function zeroes_loop :: "string \<Rightarrow> int \<Rightarrow> int" where
  "zeroes_loop s p = (if s \<noteq> [] \<and> last s = CHR ''0'' then zeroes_loop (butlast s) (p - 1) else p)"
  by pat_completeness auto
termination
  by (relation "measure (\<lambda>(s, p). length s)") auto

declare zeroes_loop.simps [simp del]

definition places_of_text :: "Formatter \<Rightarrow> nat \<Rightarrow> string \<Rightarrow> nat" where
  "places_of_text f p s =
     (if CHR ''.'' \<notin> set s then p
      else nat (max (zeroes_loop (tl (dropWhile (\<lambda>c. c \<noteq> CHR ''.'') s)) (int p))
                    (int (decimal_places f))))"

definition Formatter_decimal_places :: "Formatter \<Rightarrow> pyfloat \<Rightarrow> error + nat" where
  "Formatter_decimal_places f n =
     (if \<not> dynamic_decimals f \<or> float_eq_zero n then Inr (decimal_places f)
      else
        (case places_loop n (max (decimal_places f) 10 + 1) (decimal_places f) None of
           Inl err \<Rightarrow> Inl err
         | Inr (p, None) \<Rightarrow> Inl UnboundLocalError
         | Inr (p, Some i) \<Rightarrow> Inr (places_of_text f p (float_repr i))))"

definition with_unit :: "string \<Rightarrow> string option \<Rightarrow> string" where
  "with_unit num unit =
     (case unit of None \<Rightarrow> num | Some u \<Rightarrow> if u = [] then num else num @ '' '' @ u)"

text \<open>
  \<open>formatted\<close> and \<open>formatted_no_thousands\<close>: the format is built with the
  number of places that \<open>_decimal_places\<close> returns, and \<open>fmt.format(n)\<close> either
  raises or gives the text in which the separators are then replaced.
\<close>

definition Formatter_formatted :: "Formatter \<Rightarrow> pyfloat \<Rightarrow> string option \<Rightarrow> error + string" where
  "Formatter_formatted f n unit =
     (case Formatter_decimal_places f n of
        Inl err \<Rightarrow> Inl err
      | Inr places \<Rightarrow>
          (case format_fixed (thousands_separator f \<noteq> []) places n of
             Inl err \<Rightarrow> Inl err
           | Inr num \<Rightarrow>
               Inr (with_unit
                     (replace ''||point||'' (decimal_separator f)
                       (replace ''||comma||'' (thousands_separator f)
                         (replace ''.'' ''||point||'' (replace '','' ''||comma||'' num))))
                     unit)))"

definition Formatter_formatted_no_thousands :: "Formatter \<Rightarrow> pyfloat \<Rightarrow> string option \<Rightarrow> error + string" where
  "Formatter_formatted_no_thousands f n unit =
     (case Formatter_decimal_places f n of
        Inl err \<Rightarrow> Inl err
      | Inr places \<Rightarrow>
          (case format_fixed False places n of
             Inl err \<Rightarrow> Inl err
           | Inr num \<Rightarrow>
               Inr (with_unit
                     (replace ''||point||'' (decimal_separator f) (replace ''.'' ''||point||'' num))
                     unit)))"

record Conversion =
  from_number :: pyfloat
  from_unit :: string
  to_number :: pyfloat
  to_unit :: string
  dimensionality :: string

subsection \<open>Converter\<close>

record Converter =
  defaults :: Defaults
  decimal_separator :: string
  thousands_separator :: string

text \<open>
  \<open>convert\<close>. The loop over the destination units stops at the first exception;
  \<open>UndefinedUnitError\<close> for a destination becomes the \<open>ValueError\<close> of the
  source, anything else passes through. Reading the defaults may change the
  \<open>Defaults\<close> object, so the converter is returned as well.
\<close>

fun convert_loop :: "UnitRegistry \<Rightarrow> string list \<Rightarrow> Input \<Rightarrow> string list \<Rightarrow> error + Conversion list" where
  "convert_loop ureg enabled i [] = Inr []"
| "convert_loop ureg enabled i (u # us) =
     (case ureg_Quantity ureg one u of
        Inl (UndefinedUnitError _) \<Rightarrow> Inl (ValueError (''Unknown unit: '' @ u))
      | Inl err \<Rightarrow> Inl (PintError err)
      | Inr _ \<Rightarrow>
          (case convert_to ureg enabled (Input.number i) (Input.from_unit i) u of
             Inl err \<Rightarrow> Inl (PintError err)
           | Inr conv \<Rightarrow>
               (case convert_loop ureg enabled i us of
                  Inl err \<Rightarrow> Inl err
                | Inr results \<Rightarrow>
                    Inr (\<lparr>from_number = Input.number i, from_unit = Input.from_unit i,
                          to_number = conv, to_unit = u,
                          dimensionality = Input.dimensionality i\<rparr> # results))))"

definition destination_units :: "Converter \<Rightarrow> Input \<Rightarrow> string list \<times> Converter" where
  "destination_units c i =
     (case Input.to_unit i of
        Some t \<Rightarrow> ([t], c)
      | None \<Rightarrow>
          (case Defaults_defaults (defaults c) (Input.dimensionality i) of
             (r, d) \<Rightarrow> (filter (\<lambda>u. u \<noteq> Input.from_unit i) (lists d r), c\<lparr>defaults := d\<rparr>)))"

definition Converter_convert ::
  "UnitRegistry \<Rightarrow> string list \<Rightarrow> Converter \<Rightarrow> Input \<Rightarrow> (error + Conversion list) \<times> Converter" where
  "Converter_convert ureg enabled c i =
     (case destination_units c i of
        (units, c') \<Rightarrow>
          if units = [] then (Inl NoToUnits, c')
          else
            (case ureg_Quantity ureg (Input.number i) (Input.from_unit i) of
               Inl err \<Rightarrow> (Inl (PintError err), c')
             | Inr qty \<Rightarrow> (convert_loop ureg enabled i units, c')))"

text \<open>
  \<open>parse_context\<close>: the leading lowercase letters, enabled as a context when there
  are any. The second component of the result is the list of enabled contexts afterwards.
\<close>

definition Converter_parse_context ::
  "UnitRegistry \<Rightarrow> string list \<Rightarrow> string \<Rightarrow> (error + string \<times> string) \<times> string list" where
  "Converter_parse_context ureg enabled query =
     (let ctx = takeWhile (\<lambda>c. c \<in> set ''abcdefghijklmnopqrstuvwxyz'') query
      in if ctx \<noteq> [] then
           (if has_context ureg ctx
            then (Inr (ctx, strip (drop (length ctx) query)), enabled @ [ctx])
            else (Inl (ValueError (''Unknown context: '' @ ctx)), enabled))
         else (Inr (ctx, query), enabled))"

text \<open>
  \<open>parse_quantity\<close>. \<open>quantity_loop\<close> is the \<open>for\<close> loop with its list
  \<open>qty\<close>: a \<open>+\<close> appends an empty string and then, by the second \<open>if\<close>,
  itself; the thousands separator appends an empty string, the decimal separator a
  point and any other accepted character itself. The tail is cut after
  \<open>len(qty)\<close> characters of the query.
\<close>

fun quantity_loop :: "Converter \<Rightarrow> string list \<Rightarrow> string \<Rightarrow> string list" where
  "quantity_loop c qty [] = qty"
| "quantity_loop c qty (ch # rest) =
     (if ch \<in> set (''+-1234567890'' @ Converter.thousands_separator c @ Converter.decimal_separator c)
      then quantity_loop c
             ((if ch = CHR ''+'' then qty @ [''''] else qty) @
              (if [ch] = Converter.thousands_separator c then ['''']
               else if [ch] = Converter.decimal_separator c then [''.'']
               else [[ch]]))
             rest
      else qty)"

declare quantity_loop.simps [simp del]

definition Converter_parse_quantity :: "Converter \<Rightarrow> string \<Rightarrow> error + pyfloat option \<times> string" where
  "Converter_parse_quantity c query =
     (let qty = quantity_loop c [] query
      in if length qty = 0 then Inr (None, '''')
         else
           (case py_float (concat qty) of
              None \<Rightarrow> Inl (FloatValueError (concat qty))
            | Some q \<Rightarrow> Inr (Some q, strip (drop (length qty) query))))"

text \<open>
  \<open>parse_units\<close>: \<open>units[0]\<close> raises \<open>IndexError\<close> on an empty list; a second
  unit is looked up only when it is a non-empty string.
\<close>

definition lookup_unit :: "UnitRegistry \<Rightarrow> pyfloat \<Rightarrow> string \<Rightarrow> error + Quantity" where
  "lookup_unit ureg v u =
     (case ureg_Quantity ureg v u of
        Inl (UndefinedUnitError _) \<Rightarrow> Inl (ValueError (''Unknown unit: '' @ u))
      | Inl err \<Rightarrow> Inl (PintError err)
      | Inr q \<Rightarrow> Inr q)"

definition Converter_parse_units ::
  "UnitRegistry \<Rightarrow> string \<Rightarrow> pyfloat \<Rightarrow> error + Quantity \<times> Quantity option" where
  "Converter_parse_units ureg query qty =
     (let units = map strip (split query)
      in if units = [] then Inl IndexError
         else if 2 < length units then Inl (ValueError ''More than 2 units specified'')
         else
           (case lookup_unit ureg qty (units ! 0) of
              Inl err \<Rightarrow> Inl err
            | Inr from_q \<Rightarrow>
                if 1 < length units \<and> units ! 1 \<noteq> [] then
                  (case lookup_unit ureg one (units ! 1) of
                     Inl err \<Rightarrow> Inl err
                   | Inr to_q \<Rightarrow> Inr (from_q, Some to_q))
                else Inr (from_q, None)))"

definition Converter_parse ::
  "UnitRegistry \<Rightarrow> string list \<Rightarrow> Converter \<Rightarrow> string \<Rightarrow> (error + Input) \<times> string list" where
  "Converter_parse ureg enabled c query =
     (case Converter_parse_context ureg enabled query of
        (Inl err, enabled') \<Rightarrow> (Inl err, enabled')
      | (Inr (ctx, query'), enabled') \<Rightarrow>
          (case Converter_parse_quantity c query' of
             Inl err \<Rightarrow> (Inl err, enabled')
           | Inr (None, tail) \<Rightarrow>
               if ctx \<noteq> [] then (Inl (ValueError ''No quantity''), enabled')
               else (Inl (ValueError ''Start your query with a number''), enabled')
           | Inr (Some qty, tail) \<Rightarrow>
               if length tail = 0 then (Inl (ValueError ''No units specified''), enabled')
               else
                 (case Converter_parse_units ureg tail qty of
                    Inl err \<Rightarrow> (Inl err, enabled')
                  | Inr (from_q, to_q) \<Rightarrow>
                      (Inr \<lparr>number = magnitude from_q,
                            dimensionality = dimensionality_text from_q,
                            from_unit = units_text from_q,
                            to_unit = map_option units_text to_q,
                            context = ctx\<rparr>,
                       enabled'))))"

subsection \<open>Example objects\<close>

text \<open>
  A registry that knows four units and one context, for the examples below: the
  kilometre, the metre and the mile are lengths, the second is a time, and converting
  between a length and a time raises \<open>DimensionalityError\<close>.
\<close>

definition example_units :: "(string \<times> string \<times> string) list" where
  "example_units =
     [(''km'', ''kilometer'', ''[length]''), (''kilometer'', ''kilometer'', ''[length]''),
      (''m'', ''meter'', ''[length]''), (''meter'', ''meter'', ''[length]''),
      (''mi'', ''mile'', ''[length]''), (''mile'', ''mile'', ''[length]''),
      (''s'', ''second'', ''[time]''), (''second'', ''second'', ''[time]'')]"

definition example_factors :: "((string \<times> string) \<times> pyfloat) list" where
  "example_factors =
     [((''kilometer'', ''meter''), decimal_value False 1000 0),
      ((''meter'', ''kilometer''), decimal_value False 1 (- 3)),
      ((''kilometer'', ''mile''), decimal_value False 621371192237334 (- 15)),
      ((''mile'', ''kilometer''), decimal_value False 1609344 (- 6)),
      ((''meter'', ''mile''), decimal_value False 621371192237334 (- 18)),
      ((''mile'', ''meter''), decimal_value False 1609344 (- 3))]"

definition example_convert :: "pyfloat \<Rightarrow> string \<times> string \<Rightarrow> string \<times> string \<Rightarrow> pint_error + pyfloat" where
  "example_convert v a b =
     (if snd a \<noteq> snd b then Inl (DimensionalityError (fst a) (fst b))
      else if fst a = fst b then Inr v
      else case map_of example_factors (fst a, fst b) of
             Some k \<Rightarrow> Inr (float_mul v k)
           | None \<Rightarrow> Inl (OtherPintError ''no factor''))"

definition example_ureg :: UnitRegistry where
  "example_ureg =
     \<lparr>unit_info = (\<lambda>u. case map_of example_units u of
                          Some info \<Rightarrow> Inr info
                        | None \<Rightarrow> Inl (UndefinedUnitError u)),
      convert_to = (\<lambda>enabled v u w.
                      case (map_of example_units u, map_of example_units w) of
                        (Some a, Some b) \<Rightarrow> example_convert v a b
                      | (None, _) \<Rightarrow> Inl (UndefinedUnitError u)
                      | (_, None) \<Rightarrow> Inl (UndefinedUnitError w)),
      has_context = (\<lambda>name. name = ''sp'' \<or> name = ''spectroscopy'')\<rparr>"

text \<open>
  A settings store with nothing saved, the \<open>Defaults\<close> object after
  \<open>add('[length]', 'mile')\<close> on it, and that object after one
  \<open>defaults('[length]')\<close> call, whose copy is list 1.
\<close>

definition fresh_settings :: Defaults where
  "fresh_settings = \<lparr>lists = (\<lambda>_. []), next_ref = 0, default_units = None, writes = [],
                      defs = Map.empty\<rparr>"

definition mile_saved :: Defaults where
  "mile_saved = Defaults_add (Defaults_init fresh_settings) ''[length]'' ''mile''"

definition mile_read :: Defaults where
  "mile_read = mile_saved\<lparr>lists := (lists mile_saved)(1 := [''mile'']), next_ref := 2\<rparr>"

text \<open>
  The object after \<open>add('[length]', 'meter')\<close>, \<open>add('[length]', 'kilometer')\<close>
  and \<open>add('[length]', 'mile')\<close>, and converters with the default separators.
\<close>

definition three_saved :: Defaults where
  "three_saved =
     Defaults_add (Defaults_add (Defaults_add (Defaults_init fresh_settings)
       ''[length]'' ''meter'') ''[length]'' ''kilometer'') ''[length]'' ''mile''"

definition default_converter :: "Defaults \<Rightarrow> Converter" where
  "default_converter d = \<lparr>defaults = d, decimal_separator = ''.'', thousands_separator = '',''\<rparr>"

text \<open>
  A converter whose thousands separator is made of two file separator characters
  \<open>0x1C\<close>: the scan accepts a single one of them and appends it as it is.
\<close>

definition separator_converter :: "Defaults \<Rightarrow> Converter" where
  "separator_converter d =
     \<lparr>defaults = d, decimal_separator = ''.'', thousands_separator = [CHR 0x1C, CHR 0x1C]\<rparr>"

text \<open>The floats \<open>5.0\<close> and \<open>1234.5\<close>.\<close>

definition five :: pyfloat where
  "five = Finite False 5629499534213120 (- 50)"

definition f1234_5 :: pyfloat where
  "f1234_5 = Finite False 5429388417957888 (- 42)"

text \<open>
  Inputs for five kilometres: with the second, with a unit the registry does not know,
  with the kilometre itself and with nothing as destination.
\<close>

definition km_to_second :: Input where
  "km_to_second = \<lparr>number = five, dimensionality = ''[length]'', from_unit = ''kilometer'',
                    to_unit = Some ''second'', context = []\<rparr>"

definition km_to_unknown :: Input where
  "km_to_unknown = \<lparr>number = five, dimensionality = ''[length]'', from_unit = ''kilometer'',
                     to_unit = Some ''zzz'', context = []\<rparr>"

definition km_to_km :: Input where
  "km_to_km = \<lparr>number = five, dimensionality = ''[length]'', from_unit = ''kilometer'',
                to_unit = Some ''kilometer'', context = []\<rparr>"

definition km_alone :: Input where
  "km_alone = \<lparr>number = five, dimensionality = ''[length]'', from_unit = ''kilometer'',
                to_unit = None, context = []\<rparr>"

section \<open>Evaluation rules\<close>

lemma bit_length_0: "bit_length 0 = 0"
  by (simp add: bit_length.simps)

lemma bit_length_1: "bit_length (Suc 0) = 1"
  by (simp add: bit_length.simps [of "Suc 0"] bit_length_0)

lemma bit_length_Bit0: "bit_length (numeral (Num.Bit0 k)) = 1 + bit_length (numeral k)"
  by (subst bit_length.simps) simp

lemma bit_length_Bit1: "bit_length (numeral (Num.Bit1 k)) = 1 + bit_length (numeral k)"
  by (subst bit_length.simps) simp

lemmas float_of_frac_eval =
  float_of_frac_def round_at_def pack_def floor_log2_def floor_log_adjust_def div_half_even_def
  round_quotient_def bit_length_0 bit_length_1 bit_length_Bit0 bit_length_Bit1

lemmas py_float_eval = py_float_def float_strip_def float_isspace_def parse_signed_def
  parse_decimal_def
  parse_scaled_def decimal_value_def signed_digits_def is_digit_def nat_of_digits_def
  digit_value_def to_lower_def

lemma example_unit_info:
  "unit_info example_ureg ''km'' = Inr (''kilometer'', ''[length]'')"
  "unit_info example_ureg ''mi'' = Inr (''mile'', ''[length]'')"
  "unit_info example_ureg ''kilometer'' = Inr (''kilometer'', ''[length]'')"
  "unit_info example_ureg ''meter'' = Inr (''meter'', ''[length]'')"
  "unit_info example_ureg ''mile'' = Inr (''mile'', ''[length]'')"
  "unit_info example_ureg ''second'' = Inr (''second'', ''[time]'')"
  by (simp_all add: example_ureg_def example_units_def)

section \<open>The parser\<close>

lemmas quantity_loop_eval = quantity_loop.simps default_converter_def

lemma py_float_5: "py_float ''5.0'' = Some five" "py_float ''+5'' = Some five"
  by (simp_all add: py_float_eval float_of_frac_eval five_def)

lemma py_float_10: "py_float ''10'' \<noteq> None"
  by (simp add: py_float_eval float_of_frac_eval)

lemma py_float_rejects: "py_float '''' = None" "py_float ''+'' = None" "py_float ''5-3'' = None"
  by (simp_all add: py_float_eval)

lemma py_float_whitespace:
  "py_float [CHR 0x1C, CHR ''5''] = None"
  "py_float [CHR ''5'', CHR 0x1F] = None"
  "py_float [CHR 0xA0, CHR ''5'', CHR 0x85] = Some five"
  "py_float [CHR 0x09, CHR ''5'', CHR '' ''] = Some five"
  by (simp_all add: py_float_eval float_of_frac_eval five_def)

lemma no_context: "query = [] \<or> hd query \<notin> set ''abcdefghijklmnopqrstuvwxyz'' \<Longrightarrow>
  Converter_parse_context ureg enabled query = (Inr ([], query), enabled)"
  by (cases query) (auto simp: Converter_parse_context_def Let_def)

lemma quantity_loop_plus5:
  "quantity_loop (default_converter d) [] ''+5 km mi'' = ['''', ''+'', ''5'']"
  by (simp add: quantity_loop_eval)

lemma parse_quantity_plus5:
  "Converter_parse_quantity (default_converter d) ''+5 km mi'' = Inr (Some five, ''km mi'')"
  by (simp add: Converter_parse_quantity_def quantity_loop_plus5 py_float_5 strip_def
      py_isspace_def Let_def)

lemma split_km_mi: "map strip (split ''km mi'') = [''km'', ''mi'']"
  by (simp add: split_def strip_def py_isspace_def)

text \<open>
  Claim C1. With the default separators, \<open>parse("+5 km mi")\<close> returns the Input with
  number \<open>5.0\<close>, the units and dimensionality the registry gives for \<open>km\<close>, the
  units it gives for \<open>mi\<close> as \<open>to_unit\<close>, and no context, in any registry that
  knows both unit texts. The leading \<open>+\<close> is accepted by the scan: the list built is
  \<open>['', '+', '5']\<close>, whose text \<open>+5\<close> reads as \<open>5.0\<close>, and the tail handed
  to the unit parser is \<open>km mi\<close>.
\<close>

theorem parse_plus5_km_mi:
  assumes "unit_info ureg ''km'' = Inr (km, dim)" and "unit_info ureg ''mi'' = Inr (mi, dim')"
  shows "Converter_parse ureg enabled (default_converter d) ''+5 km mi'' =
           (Inr \<lparr>number = five, dimensionality = dim, from_unit = km, to_unit = Some mi,
                 context = []\<rparr>, enabled) \<and>
         py_float ''5.0'' = Some five \<and>
         quantity_loop (default_converter d) [] ''+5 km mi'' = ['''', ''+'', ''5''] \<and>
         Converter_parse_quantity (default_converter d) ''+5 km mi'' = Inr (Some five, ''km mi'')"
proof -
  have ctx: "Converter_parse_context ureg enabled ''+5 km mi'' = (Inr ([], ''+5 km mi''), enabled)"
    by (rule no_context) simp
  have units: "Converter_parse_units ureg ''km mi'' five =
      Inr (\<lparr>magnitude = five, units_text = km, dimensionality_text = dim\<rparr>,
           Some \<lparr>magnitude = one, units_text = mi, dimensionality_text = dim'\<rparr>)"
    using assms
    by (simp add: Converter_parse_units_def split_km_mi lookup_unit_def ureg_Quantity_def Let_def)
  have "Converter_parse ureg enabled (default_converter d) ''+5 km mi'' =
           (Inr \<lparr>number = five, dimensionality = dim, from_unit = km, to_unit = Some mi,
                 context = []\<rparr>, enabled)"
    by (simp add: Converter_parse_def ctx parse_quantity_plus5 units)
  then show ?thesis
    by (simp add: py_float_5 quantity_loop_plus5 parse_quantity_plus5)
qed

theorem parse_plus5_km_mi_witness:
  "Converter_parse example_ureg [] (default_converter fresh_settings) ''+5 km mi'' =
     (Inr \<lparr>number = five, dimensionality = ''[length]'', from_unit = ''kilometer'',
           to_unit = Some ''mile'', context = []\<rparr>, [])"
  using parse_plus5_km_mi [OF example_unit_info(1) example_unit_info(2)] by simp

text \<open>
  Claim C7. With the default separators, \<open>parse("10")\<close> fails with
  \<open>No units specified\<close>. For every converter and query: when the context step
  succeeds and the quantity scan of what it leaves appends nothing, \<open>parse\<close> fails
  with \<open>Start your query with a number\<close> if no context was extracted and with
  \<open>No quantity\<close> if one was; the two messages differ.
\<close>

theorem parse_no_units_no_number:
  "Converter_parse ureg enabled (default_converter d) ''10'' =
     (Inl (ValueError ''No units specified''), enabled) \<and>
   (Converter_parse_context ureg enabled query = (Inr (ctx, rest), enabled') \<longrightarrow>
    quantity_loop c [] rest = [] \<longrightarrow>
    Converter_parse ureg enabled c query =
      (Inl (ValueError (if ctx \<noteq> [] then ''No quantity''
                        else ''Start your query with a number'')), enabled')) \<and>
   ValueError ''No quantity'' \<noteq> ValueError ''Start your query with a number''"
proof -
  have ctx: "Converter_parse_context ureg enabled ''10'' = (Inr ([], ''10''), enabled)"
    by (rule no_context) simp
  have scan: "quantity_loop (default_converter d) [] ''10'' = [''1'', ''0'']"
    by (simp add: quantity_loop_eval)
  obtain q where q: "py_float ''10'' = Some q"
    using py_float_10 by (cases "py_float ''10''") auto
  have qty: "Converter_parse_quantity (default_converter d) ''10'' = Inr (Some q, '''')"
    by (simp add: Converter_parse_quantity_def scan q strip_def Let_def)
  have ten: "Converter_parse ureg enabled (default_converter d) ''10'' =
     (Inl (ValueError ''No units specified''), enabled)"
    by (simp add: Converter_parse_def ctx qty)
  have none: "Converter_parse ureg enabled c query =
      (Inl (ValueError (if ctx \<noteq> [] then ''No quantity''
                        else ''Start your query with a number'')), enabled')"
    if "Converter_parse_context ureg enabled query = (Inr (ctx, rest), enabled')"
      and "quantity_loop c [] rest = []"
    using that by (simp add: Converter_parse_def Converter_parse_quantity_def Let_def)
  from ten none show ?thesis by simp
qed

lemma example_context_sp:
  "Converter_parse_context example_ureg [] ''sp'' = (Inr (''sp'', ''''), [''sp''])"
  by (simp add: Converter_parse_context_def example_ureg_def strip_def Let_def)

theorem parse_no_units_no_number_witness:
  "Converter_parse example_ureg [] (default_converter fresh_settings) '' km'' =
     (Inl (ValueError ''Start your query with a number''), []) \<and>
   Converter_parse example_ureg [] (default_converter fresh_settings) ''sp'' =
     (Inl (ValueError ''No quantity''), [''sp''])"
proof -
  have a: "Converter_parse_context example_ureg [] '' km'' = (Inr ([], '' km''), [])"
    by (rule no_context) simp
  have b: "quantity_loop (default_converter fresh_settings) [] '' km'' = []"
    by (simp add: quantity_loop_eval)
  have c: "quantity_loop (default_converter fresh_settings) [] '''' = []"
    by (simp add: quantity_loop_eval)
  from parse_no_units_no_number [of example_ureg "[]" fresh_settings "'' km''" "[]" "'' km''" "[]"
      "default_converter fresh_settings"] a b
  have first: "Converter_parse example_ureg [] (default_converter fresh_settings) '' km'' =
     (Inl (ValueError ''Start your query with a number''), [])" by simp
  from parse_no_units_no_number [of example_ureg "[]" fresh_settings "''sp''" "''sp''" "''''"
      "[''sp'']" "default_converter fresh_settings"] example_context_sp c
  have second: "Converter_parse example_ureg [] (default_converter fresh_settings) ''sp'' =
     (Inl (ValueError ''No quantity''), [''sp''])" by simp
  from first second show ?thesis by simp
qed

text \<open>
  Claim C10. Some queries make the quantity scan append something whose text
  \<open>float()\<close> rejects: with the default separators, \<open>, m\<close> gives the empty text,
  \<open>+ m\<close> gives \<open>+\<close> and \<open>5-3 m\<close> gives \<open>5-3\<close>. For every converter and
  query: when the context step succeeds, the scan of what it leaves appends something
  and \<open>float()\<close> rejects the joined text, \<open>parse\<close> fails with the
  \<open>ValueError\<close> of \<open>float()\<close> for that text, which is none of the parser's own
  \<open>ValueError\<close> messages. The texts \<open>float()\<close> rejects include those that start
  with a separator character \<open>0x1C\<close>, which \<open>str.strip\<close> would drop: with a
  thousands separator made of two of them, the query of that character followed by
  \<open>5 km\<close> fails in the same way.
\<close>

theorem parse_float_error:
  "(Converter_parse_context ureg enabled query = (Inr (ctx, rest), enabled') \<longrightarrow>
    quantity_loop c [] rest \<noteq> [] \<longrightarrow>
    py_float (concat (quantity_loop c [] rest)) = None \<longrightarrow>
    Converter_parse ureg enabled c query =
      (Inl (FloatValueError (concat (quantity_loop c [] rest))), enabled')) \<and>
   Converter_parse ureg enabled (default_converter d) '', m'' =
     (Inl (FloatValueError ''''), enabled) \<and>
   Converter_parse ureg enabled (default_converter d) ''+ m'' =
     (Inl (FloatValueError ''+''), enabled) \<and>
   Converter_parse ureg enabled (default_converter d) ''5-3 m'' =
     (Inl (FloatValueError ''5-3''), enabled) \<and>
   Converter_parse ureg enabled (separator_converter d) (CHR 0x1C # ''5 km'') =
     (Inl (FloatValueError [CHR 0x1C, CHR ''5'']), enabled) \<and>
   FloatValueError text \<noteq> ValueError message"
proof -
  have general: "Converter_parse ureg enabled c query =
      (Inl (FloatValueError (concat (quantity_loop c [] rest))), enabled')"
    if "Converter_parse_context ureg enabled query = (Inr (ctx, rest), enabled')"
      and "quantity_loop c [] rest \<noteq> []"
      and "py_float (concat (quantity_loop c [] rest)) = None"
    for ureg enabled query ctx rest enabled' c
    using that by (simp add: Converter_parse_def Converter_parse_quantity_def Let_def)
  have ctx: "Converter_parse_context ureg enabled '', m'' = (Inr ([], '', m''), enabled)"
    "Converter_parse_context ureg enabled ''+ m'' = (Inr ([], ''+ m''), enabled)"
    "Converter_parse_context ureg enabled ''5-3 m'' = (Inr ([], ''5-3 m''), enabled)"
    "Converter_parse_context ureg enabled (CHR 0x1C # ''5 km'') =
       (Inr ([], CHR 0x1C # ''5 km''), enabled)"
    by (rule no_context, simp)+
  have scan: "quantity_loop (default_converter d) [] '', m'' = ['''']"
    "quantity_loop (default_converter d) [] ''+ m'' = ['''', ''+'']"
    "quantity_loop (default_converter d) [] ''5-3 m'' = [''5'', ''-'', ''3'']"
    by (simp_all add: quantity_loop_eval)
  have scan_separator: "quantity_loop (separator_converter d) [] (CHR 0x1C # ''5 km'') =
      [[CHR 0x1C], ''5'']"
    by (simp add: quantity_loop.simps separator_converter_def)
  have e1: "Converter_parse ureg enabled (default_converter d) '', m'' =
     (Inl (FloatValueError ''''), enabled)"
    using general [OF ctx(1), of "default_converter d"] by (simp add: scan py_float_rejects)
  have e2: "Converter_parse ureg enabled (default_converter d) ''+ m'' =
     (Inl (FloatValueError ''+''), enabled)"
    using general [OF ctx(2), of "default_converter d"] by (simp add: scan py_float_rejects)
  have e3: "Converter_parse ureg enabled (default_converter d) ''5-3 m'' =
     (Inl (FloatValueError ''5-3''), enabled)"
    using general [OF ctx(3), of "default_converter d"] by (simp add: scan py_float_rejects)
  have e4: "Converter_parse ureg enabled (separator_converter d) (CHR 0x1C # ''5 km'') =
     (Inl (FloatValueError [CHR 0x1C, CHR ''5'']), enabled)"
    using general [OF ctx(4), of "separator_converter d"]
    by (simp add: scan_separator py_float_whitespace)
  from general [of ureg enabled query ctx rest enabled' c] e1 e2 e3 e4 show ?thesis by simp
qed

theorem parse_float_error_witness:
  "Converter_parse_context example_ureg [] ''5-3 m'' = (Inr ([], ''5-3 m''), []) \<and>
   quantity_loop (default_converter fresh_settings) [] ''5-3 m'' = [''5'', ''-'', ''3''] \<and>
   py_float ''5-3'' = None \<and>
   Converter_parse example_ureg [] (default_converter fresh_settings) ''5-3 m'' =
     (Inl (FloatValueError ''5-3''), [])"
proof -
  have a: "Converter_parse_context example_ureg [] ''5-3 m'' = (Inr ([], ''5-3 m''), [])"
    by (rule no_context) simp
  have b: "quantity_loop (default_converter fresh_settings) [] ''5-3 m'' = [''5'', ''-'', ''3'']"
    by (simp add: quantity_loop_eval)
  from parse_float_error [of example_ureg "[]" "''5-3 m''" "[]" "''5-3 m''" "[]"
      "default_converter fresh_settings"] a b py_float_rejects(3)
  have "Converter_parse example_ureg [] (default_converter fresh_settings) ''5-3 m'' =
     (Inl (FloatValueError ''5-3''), [])" by simp
  with a b py_float_rejects(3) show ?thesis by simp
qed

section \<open>Properties of the default-unit store\<close>

lemma defs_getitem_present:
  "defs s d = Some r \<Longrightarrow> defs_getitem s d = (r, s)"
  by (simp add: defs_getitem_def)

lemma defs_getitem_missing:
  "defs s d = None \<Longrightarrow>
   defs_getitem s d =
     (next_ref s, s\<lparr>lists := (lists s)(next_ref s := []), next_ref := Suc (next_ref s),
                     defs := (defs s)(d \<mapsto> next_ref s)\<rparr>)"
  by (simp add: defs_getitem_def new_list_def)

lemma defs_getitem_lists:
  "defs_getitem s d = (r, s') \<Longrightarrow> lists s' r = saved_units s d"
  by (cases "defs s d") (auto simp: defs_getitem_missing defs_getitem_present saved_units_def)

lemma defs_getitem_defs:
  "defs_getitem s d = (r, s') \<Longrightarrow> defs s' d = Some r"
  by (cases "defs s d") (auto simp: defs_getitem_missing defs_getitem_present)

lemma defs_getitem_allocated:
  "refs_allocated s \<Longrightarrow> defs_getitem s d = (r, s') \<Longrightarrow> refs_allocated s' \<and> r < next_ref s'"
  by (cases "defs s d")
     (auto simp: defs_getitem_missing defs_getitem_present refs_allocated_def less_Suc_eq
           split: if_splits)

lemma defs_getitem_frame:
  "refs_allocated s \<Longrightarrow> defs_getitem s d = (r, s') \<Longrightarrow>
   persisted s' = persisted s \<and> writes s' = writes s \<and> default_units s' = default_units s"
proof (cases "defs s d")
  case (Some r')
  assume "defs_getitem s d = (r, s')"
  with Some show ?thesis by (simp add: defs_getitem_present)
next
  case None
  assume alloc: "refs_allocated s" and "defs_getitem s d = (r, s')"
  with None have s': "s' = s\<lparr>lists := (lists s)(next_ref s := []), next_ref := Suc (next_ref s),
                     defs := (defs s)(d \<mapsto> next_ref s)\<rparr>"
    by (auto simp: defs_getitem_missing)
  have "map_option ((lists s)(next_ref s := [])) \<circ> m = map_option (lists s) \<circ> m"
    if "default_units s = Some m" for m
  proof
    fix k
    show "(map_option ((lists s)(next_ref s := [])) \<circ> m) k = (map_option (lists s) \<circ> m) k"
      using alloc that by (cases "m k") (auto simp: refs_allocated_def)
  qed
  then show ?thesis
    by (cases "default_units s") (simp_all add: s' persisted_def)
qed

text \<open>
  Allocation is an invariant: a new object has it when the references in the settings
  entry have been handed out, and every method keeps it.
\<close>

lemma refs_allocated_init:
  "(\<forall>m d r. default_units s = Some m \<longrightarrow> m d = Some r \<longrightarrow> r < next_ref s) \<Longrightarrow>
   refs_allocated (Defaults_init s)"
  by (cases "default_units s") (auto simp: refs_allocated_def Defaults_init_def Defaults_load_def)

lemma refs_allocated_lists:
  "refs_allocated (s\<lparr>lists := h\<rparr>) = refs_allocated s"
  by (simp add: refs_allocated_def)

lemma refs_allocated_save: "refs_allocated s \<Longrightarrow> refs_allocated (Defaults_save s)"
  by (simp add: refs_allocated_def Defaults_save_def)

lemma refs_allocated_is_default:
  "refs_allocated s \<Longrightarrow> refs_allocated (snd (Defaults_is_default s d u))"
proof -
  assume a: "refs_allocated s"
  obtain r s' where g: "defs_getitem s d = (r, s')" by (cases "defs_getitem s d")
  from defs_getitem_allocated [OF a g] g show ?thesis
    by (simp add: Defaults_is_default_def)
qed

lemma refs_allocated_defaults:
  "refs_allocated s \<Longrightarrow> refs_allocated (snd (Defaults_defaults s d))"
proof -
  assume a: "refs_allocated s"
  obtain r s' where g: "defs_getitem s d = (r, s')" by (cases "defs_getitem s d")
  from defs_getitem_allocated [OF a g] have "refs_allocated s'" by simp
  then have "refs_allocated (snd (new_list (lists s' r) s'))"
    by (auto simp: refs_allocated_def new_list_def less_Suc_eq)
  with g show ?thesis by (simp add: Defaults_defaults_def)
qed

lemma refs_allocated_add:
  assumes "refs_allocated s"
  shows "refs_allocated (Defaults_add s d u)"
proof -
  obtain r s1 where g: "defs_getitem s d = (r, s1)" by (cases "defs_getitem s d")
  from defs_getitem_allocated [OF assms g] have a1: "refs_allocated s1" by simp
  from defs_getitem_lists [OF g] defs_getitem_defs [OF g]
  have again: "defs_getitem s1 d = (r, s1)" by (simp add: defs_getitem_present)
  from a1 have "refs_allocated (Defaults_save (s1\<lparr>lists := (lists s1)(r := lists s1 r @ [u])\<rparr>))"
    by (simp add: refs_allocated_save refs_allocated_lists)
  with a1 g again show ?thesis
    by (simp add: Defaults_add_def Defaults_is_default_def)
qed

lemma refs_allocated_remove:
  assumes "refs_allocated s"
  shows "refs_allocated (Defaults_remove s d u)"
proof -
  obtain r s1 where g: "defs_getitem s d = (r, s1)" by (cases "defs_getitem s d")
  from defs_getitem_allocated [OF assms g] have a1: "refs_allocated s1" by simp
  from defs_getitem_defs [OF g]
  have again: "defs_getitem s1 d = (r, s1)" by (simp add: defs_getitem_present)
  from a1 have "refs_allocated (Defaults_save (s1\<lparr>lists := (lists s1)(r := remove1 u (lists s1 r))\<rparr>))"
    by (simp add: refs_allocated_save refs_allocated_lists)
  with a1 g again show ?thesis
    by (simp add: Defaults_remove_def Defaults_is_default_def)
qed

lemma Defaults_add_present:
  assumes "unit \<in> set (saved_units s d)"
  shows "Defaults_add s d unit = s"
proof -
  from assms obtain r where r: "defs s d = Some r" and "unit \<in> set (lists s r)"
    by (cases "defs s d") (auto simp: saved_units_def)
  then show ?thesis
    by (simp add: Defaults_add_def Defaults_is_default_def defs_getitem_present)
qed

lemma Defaults_add_absent:
  assumes "unit \<notin> set (saved_units s d)"
  shows "saved_units (Defaults_add s d unit) d = saved_units s d @ [unit] \<and>
         (\<exists>w. writes (Defaults_add s d unit) = writes s @ [w] \<and>
              persisted (Defaults_add s d unit) = Some w \<and>
              w d = Some (saved_units s d @ [unit]))"
proof (cases "defs s d")
  case None
  then show ?thesis
    by (simp add: Defaults_add_def Defaults_is_default_def defs_getitem_missing
        defs_getitem_present Defaults_save_def saved_units_def persisted_def)
next
  case (Some r)
  with assms show ?thesis
    by (simp add: Defaults_add_def Defaults_is_default_def defs_getitem_present
        Defaults_save_def saved_units_def persisted_def)
qed

lemma Defaults_add_appends:
  "unit \<notin> set (saved_units s d) \<Longrightarrow>
   saved_units (Defaults_add s d unit) d = saved_units s d @ [unit]"
  by (simp add: Defaults_add_absent)

text \<open>
  Claim C4. \<open>Defaults.add\<close> is idempotent. When the unit is already in the
  dimensionality's list, \<open>add\<close> changes nothing at all: the lists, the
  dictionary and the write log are as before. When it is not, the unit is appended at
  the end of that list and exactly one write is logged, whose content is the settings
  entry afterwards and shows the extended list. A second \<open>add\<close> of the same unit
  is therefore a no-op, and a list without duplicates stays without duplicates.
\<close>

theorem Defaults_add_idempotent:
  "(unit \<in> set (saved_units s d) \<longrightarrow> Defaults_add s d unit = s) \<and>
   (unit \<notin> set (saved_units s d) \<longrightarrow>
      saved_units (Defaults_add s d unit) d = saved_units s d @ [unit] \<and>
      (\<exists>w. writes (Defaults_add s d unit) = writes s @ [w] \<and>
           persisted (Defaults_add s d unit) = Some w \<and>
           w d = Some (saved_units s d @ [unit]))) \<and>
   Defaults_add (Defaults_add s d unit) d unit = Defaults_add s d unit \<and>
   (distinct (saved_units s d) \<longrightarrow> distinct (saved_units (Defaults_add s d unit) d))"
proof -
  have again: "Defaults_add (Defaults_add s d unit) d unit = Defaults_add s d unit"
  proof (cases "unit \<in> set (saved_units s d)")
    case True
    then show ?thesis by (simp add: Defaults_add_present)
  next
    case False
    then have "unit \<in> set (saved_units (Defaults_add s d unit) d)"
      by (simp add: Defaults_add_appends)
    then show ?thesis by (rule Defaults_add_present)
  qed
  have dist: "distinct (saved_units (Defaults_add s d unit) d)" if "distinct (saved_units s d)"
  proof (cases "unit \<in> set (saved_units s d)")
    case True
    then show ?thesis using that by (simp add: Defaults_add_present)
  next
    case False
    then show ?thesis using that by (simp add: Defaults_add_appends)
  qed
  from Defaults_add_present [of unit s d] Defaults_add_absent [of unit s d] again dist
  show ?thesis by blast
qed

lemma Defaults_defaults_content:
  "(case Defaults_defaults s d of (r, t) \<Rightarrow> lists t r) = saved_units s d"
proof -
  obtain r0 s' where g: "defs_getitem s d = (r0, s')" by (cases "defs_getitem s d")
  then show ?thesis
    using defs_getitem_lists [OF g] by (simp add: Defaults_defaults_def new_list_def)
qed

lemma Defaults_is_default_result:
  "fst (Defaults_is_default s d u) \<longleftrightarrow> u \<in> set (saved_units s d)"
proof -
  obtain r0 s' where g: "defs_getitem s d = (r0, s')" by (cases "defs_getitem s d")
  then show ?thesis
    using defs_getitem_lists [OF g] by (simp add: Defaults_is_default_def)
qed

lemma Defaults_defaults_fresh:
  assumes "refs_allocated s" and "Defaults_defaults s d = (r, s1)"
  shows "(\<forall>d' r'. defs s1 d' = Some r' \<longrightarrow> r' \<noteq> r) \<and>
         (\<forall>m d' r'. default_units s1 = Some m \<longrightarrow> m d' = Some r' \<longrightarrow> r' \<noteq> r)"
proof -
  obtain r0 s' where g: "defs_getitem s d = (r0, s')" by (cases "defs_getitem s d")
  from defs_getitem_allocated [OF assms(1) g] have a: "refs_allocated s'" by simp
  from assms(2) g have "r = next_ref s'" "defs s1 = defs s'" "default_units s1 = default_units s'"
    by (auto simp: Defaults_defaults_def new_list_def)
  with a show ?thesis unfolding refs_allocated_def by (metis less_irrefl)
qed

lemma saved_units_update_other:
  "\<forall>d' r'. defs s d' = Some r' \<longrightarrow> r' \<noteq> r \<Longrightarrow>
   saved_units (s\<lparr>lists := (lists s)(r := ys)\<rparr>) d = saved_units s d"
  by (cases "defs s d") (auto simp: saved_units_def)

lemma persisted_update_other:
  assumes "\<forall>m d' r'. default_units s = Some m \<longrightarrow> m d' = Some r' \<longrightarrow> r' \<noteq> r"
  shows "persisted (s\<lparr>lists := (lists s)(r := ys)\<rparr>) = persisted s"
proof (cases "default_units s")
  case None
  then show ?thesis by (simp add: persisted_def)
next
  case (Some m)
  have "map_option ((lists s)(r := ys)) \<circ> m = map_option (lists s) \<circ> m"
  proof
    fix k
    show "(map_option ((lists s)(r := ys)) \<circ> m) k = (map_option (lists s) \<circ> m) k"
      using assms Some by (cases "m k") auto
  qed
  with Some show ?thesis by (simp add: persisted_def)
qed

text \<open>
  Claim C9. \<open>Defaults.defaults\<close> returns a copy. In a store where every
  reference held by \<open>_defs\<close> or by the settings entry has been handed out,
  the list returned by \<open>defaults(d)\<close> holds the saved units of \<open>d\<close>
  (none for a dimensionality never added, rather than an error), and overwriting that
  returned list with any content \<open>ys\<close> changes neither what a later
  \<open>defaults\<close> or \<open>is_default\<close> call returns, for any dimensionality and
  unit, nor the settings entry, nor the write log.
\<close>

theorem Defaults_defaults_is_copy:
  assumes "refs_allocated s" and "Defaults_defaults s d = (r, s1)"
  shows "lists s1 r = saved_units s d \<and>
         (defs s d = None \<longrightarrow> lists s1 r = []) \<and>
         (\<forall>ys d' u.
            (case Defaults_defaults (s1\<lparr>lists := (lists s1)(r := ys)\<rparr>) d' of (r2, t2) \<Rightarrow> lists t2 r2)
              = (case Defaults_defaults s1 d' of (r1, t1) \<Rightarrow> lists t1 r1) \<and>
            fst (Defaults_is_default (s1\<lparr>lists := (lists s1)(r := ys)\<rparr>) d' u)
              = fst (Defaults_is_default s1 d' u) \<and>
            persisted (s1\<lparr>lists := (lists s1)(r := ys)\<rparr>) = persisted s1 \<and>
            writes (s1\<lparr>lists := (lists s1)(r := ys)\<rparr>) = writes s1)"
proof -
  have content: "lists s1 r = saved_units s d"
    using Defaults_defaults_content [of s d] assms(2) by simp
  have empty: "lists s1 r = []" if "defs s d = None"
    using content that by (simp add: saved_units_def)
  from Defaults_defaults_fresh [OF assms]
  have f1: "\<forall>d' r'. defs s1 d' = Some r' \<longrightarrow> r' \<noteq> r"
    and f2: "\<forall>m d' r'. default_units s1 = Some m \<longrightarrow> m d' = Some r' \<longrightarrow> r' \<noteq> r"
    by blast+
  have su: "saved_units (s1\<lparr>lists := (lists s1)(r := ys)\<rparr>) d' = saved_units s1 d'" for ys d'
    using f1 by (rule saved_units_update_other)
  have pe: "persisted (s1\<lparr>lists := (lists s1)(r := ys)\<rparr>) = persisted s1" for ys
    using f2 by (rule persisted_update_other)
  have c2: "(case Defaults_defaults (s1\<lparr>lists := (lists s1)(r := ys)\<rparr>) d' of (r2, t2) \<Rightarrow> lists t2 r2)
              = (case Defaults_defaults s1 d' of (r1, t1) \<Rightarrow> lists t1 r1)" for ys d'
    by (simp only: Defaults_defaults_content su)
  have c3: "fst (Defaults_is_default (s1\<lparr>lists := (lists s1)(r := ys)\<rparr>) d' u)
              = fst (Defaults_is_default s1 d' u)" for ys d' u
    by (simp only: Defaults_is_default_result su)
  have c4: "writes (s1\<lparr>lists := (lists s1)(r := ys)\<rparr>) = writes s1" for ys
    by simp
  from content empty c2 c3 pe c4 show ?thesis by blast
qed

lemma refs_allocated_fresh: "refs_allocated (Defaults_init fresh_settings)"
  by (simp add: refs_allocated_def Defaults_init_def Defaults_load_def fresh_settings_def)

lemma add_mile:
  "Defaults_add (Defaults_init fresh_settings) ''[length]'' ''mile'' =
     \<lparr>lists = (\<lambda>_. [])(0 := [''mile'']), next_ref = 1,
      default_units = Some [''[length]'' \<mapsto> 0],
      writes = [[''[length]'' \<mapsto> [''mile'']]],
      defs = [''[length]'' \<mapsto> 0]\<rparr>"
  by (simp add: Defaults_add_def Defaults_is_default_def defs_getitem_def new_list_def
      Defaults_save_def Defaults_init_def Defaults_load_def fresh_settings_def fun_eq_iff)


lemma saved_units_fresh: "saved_units (Defaults_init fresh_settings) d = []"
  by (simp add: saved_units_def Defaults_init_def Defaults_load_def fresh_settings_def)

lemma saved_units_mile_saved: "saved_units mile_saved ''[length]'' = [''mile'']"
  by (simp add: mile_saved_def add_mile saved_units_def)

lemma refs_allocated_mile_saved: "refs_allocated mile_saved"
  by (simp add: mile_saved_def add_mile refs_allocated_def)

lemma defaults_mile_saved: "Defaults_defaults mile_saved ''[length]'' = (1, mile_read)"
  by (simp add: mile_read_def mile_saved_def add_mile Defaults_defaults_def defs_getitem_def
      new_list_def)

theorem Defaults_add_idempotent_witness:
  "''mile'' \<notin> set (saved_units (Defaults_init fresh_settings) ''[length]'') \<and>
   saved_units mile_saved ''[length]'' = [''mile''] \<and>
   writes mile_saved = [[''[length]'' \<mapsto> [''mile'']]] \<and>
   ''mile'' \<in> set (saved_units mile_saved ''[length]'') \<and>
   Defaults_add mile_saved ''[length]'' ''mile'' = mile_saved \<and>
   distinct (saved_units mile_saved ''[length]'') \<and>
   distinct (saved_units (Defaults_add mile_saved ''[length]'' ''mile'') ''[length]'')"
  using Defaults_add_idempotent [of "''mile''" "Defaults_init fresh_settings" "''[length]''"]
    Defaults_add_idempotent [of "''mile''" mile_saved "''[length]''"]
  by (simp add: saved_units_fresh saved_units_mile_saved)
    (simp add: mile_saved_def add_mile)

theorem Defaults_defaults_is_copy_witness:
  "refs_allocated mile_saved \<and>
   Defaults_defaults mile_saved ''[length]'' = (1, mile_read) \<and>
   lists mile_read 1 = [''mile''] \<and>
   fst (Defaults_is_default (mile_read\<lparr>lists := (lists mile_read)(1 := [''mile'', ''inch''])\<rparr>)
          ''[length]'' ''inch'')
     = fst (Defaults_is_default mile_read ''[length]'' ''inch'') \<and>
   persisted (mile_read\<lparr>lists := (lists mile_read)(1 := [''mile'', ''inch''])\<rparr>)
     = persisted mile_read \<and>
   defs (Defaults_init fresh_settings) ''[mass]'' = None \<and>
   (case Defaults_defaults (Defaults_init fresh_settings) ''[mass]'' of (r, t) \<Rightarrow> lists t r) = []"
proof -
  have a: "refs_allocated mile_saved" by (rule refs_allocated_mile_saved)
  have b: "refs_allocated (Defaults_init fresh_settings)" by (rule refs_allocated_fresh)
  obtain r t where c: "Defaults_defaults (Defaults_init fresh_settings) ''[mass]'' = (r, t)"
    by (cases "Defaults_defaults (Defaults_init fresh_settings) ''[mass]''")
  have d: "defs (Defaults_init fresh_settings) ''[mass]'' = None"
    by (simp add: Defaults_init_def Defaults_load_def fresh_settings_def)
  note copy = Defaults_defaults_is_copy [OF a defaults_mile_saved]
  from copy have "lists mile_read 1 = saved_units mile_saved ''[length]''" by blast
  then have e: "lists mile_read 1 = [''mile'']" by (simp only: saved_units_mile_saved)
  from copy have f: "fst (Defaults_is_default
        (mile_read\<lparr>lists := (lists mile_read)(1 := [''mile'', ''inch''])\<rparr>) ''[length]'' ''inch'')
     = fst (Defaults_is_default mile_read ''[length]'' ''inch'')" by blast
  from copy have g: "persisted (mile_read\<lparr>lists := (lists mile_read)(1 := [''mile'', ''inch''])\<rparr>)
     = persisted mile_read" by blast
  from Defaults_defaults_is_copy [OF b c] d have "lists t r = []" by blast
  with c have h: "(case Defaults_defaults (Defaults_init fresh_settings) ''[mass]'' of
      (r, t) \<Rightarrow> lists t r) = []" by simp
  from a defaults_mile_saved e f g d h show ?thesis by blast
qed

section \<open>Conversion\<close>

lemma destination_units_explicit:
  "Input.to_unit i = Some t \<Longrightarrow> destination_units c i = ([t], c)"
  by (simp add: destination_units_def)

lemma destination_units_defaults:
  "Input.to_unit i = None \<Longrightarrow>
   fst (destination_units c i) =
     filter (\<lambda>u. u \<noteq> Input.from_unit i) (saved_units (defaults c) (Input.dimensionality i))"
  using Defaults_defaults_content [of "defaults c" "Input.dimensionality i"]
  by (simp add: destination_units_def split: prod.splits)

lemma destination_units_either:
  "fst (destination_units c i) =
     (case Input.to_unit i of
        Some t \<Rightarrow> [t]
      | None \<Rightarrow> filter (\<lambda>u. u \<noteq> Input.from_unit i)
                 (saved_units (defaults c) (Input.dimensionality i)))"
  by (cases "Input.to_unit i")
     (simp_all add: destination_units_defaults destination_units_explicit)

lemma convert_loop_results:
  "convert_loop ureg enabled i us = Inr cs \<Longrightarrow>
   map Conversion.to_unit cs = us \<and>
   (\<forall>conv \<in> set cs.
      Conversion.dimensionality conv = Input.dimensionality i \<and>
      from_number conv = number i \<and>
      Conversion.from_unit conv = Input.from_unit i)"
proof (induction us arbitrary: cs)
  case Nil
  then show ?case by simp
next
  case (Cons u us)
  from Cons.prems obtain conv rest where
    rest: "convert_loop ureg enabled i us = Inr rest" and
    cs: "cs = \<lparr>from_number = number i, from_unit = Input.from_unit i, to_number = conv,
               to_unit = u, dimensionality = Input.dimensionality i\<rparr> # rest"
    by (auto split: sum.splits pint_error.splits)
  from Cons.IH [OF rest] cs show ?case by simp
qed

lemma convert_result:
  "fst (Converter_convert ureg enabled c i) =
     (if fst (destination_units c i) = [] then Inl NoToUnits
      else case ureg_Quantity ureg (number i) (Input.from_unit i) of
             Inl err \<Rightarrow> Inl (PintError err)
           | Inr qty \<Rightarrow> convert_loop ureg enabled i (fst (destination_units c i)))"
  by (simp add: Converter_convert_def split: prod.splits sum.splits)

text \<open>
  Claim C2, as amended. For every Input whose \<open>to_unit\<close> is present, \<open>convert\<close>
  never fails with \<open>NoToUnits\<close>; whenever it returns, it returns exactly one
  Conversion, whose \<open>to_unit\<close> is the Input's; and it does return, with the
  registry's magnitude, whenever the registry knows \<open>from_unit\<close> and \<open>to_unit\<close>
  and converts between them. Nothing here compares \<open>to_unit\<close> with \<open>from_unit\<close>:
  an explicitly named destination is never filtered out. In every other case
  \<open>convert\<close> raises: the registry's exception when it rejects \<open>from_unit\<close>,
  \<open>ValueError('Unknown unit: ...')\<close> when \<open>to_unit\<close> is undefined, and the
  registry's exception when it rejects \<open>to_unit\<close> otherwise or the conversion.
\<close>

theorem convert_explicit_destination:
  assumes "Input.to_unit i = Some t"
  shows "fst (Converter_convert ureg enabled c i) \<noteq> Inl NoToUnits \<and>
         (\<forall>cs. fst (Converter_convert ureg enabled c i) = Inr cs \<longrightarrow>
               (\<exists>conv. cs = [conv] \<and> Conversion.to_unit conv = t)) \<and>
         (\<forall>a b v. unit_info ureg (Input.from_unit i) = Inr a \<longrightarrow>
                  unit_info ureg t = Inr b \<longrightarrow>
                  convert_to ureg enabled (number i) (Input.from_unit i) t = Inr v \<longrightarrow>
                  fst (Converter_convert ureg enabled c i) =
                    Inr [\<lparr>from_number = number i, from_unit = Input.from_unit i,
                          to_number = v, to_unit = t,
                          dimensionality = Input.dimensionality i\<rparr>]) \<and>
         (\<forall>e. unit_info ureg (Input.from_unit i) = Inl e \<longrightarrow>
              fst (Converter_convert ureg enabled c i) = Inl (PintError e)) \<and>
         (\<forall>a e. unit_info ureg (Input.from_unit i) = Inr a \<longrightarrow>
                unit_info ureg t = Inl e \<longrightarrow>
                fst (Converter_convert ureg enabled c i) =
                  Inl (case e of
                         UndefinedUnitError x \<Rightarrow> ValueError (''Unknown unit: '' @ t)
                       | DimensionalityError x y \<Rightarrow> PintError e
                       | OtherPintError x \<Rightarrow> PintError e)) \<and>
         (\<forall>a b e. unit_info ureg (Input.from_unit i) = Inr a \<longrightarrow>
                  unit_info ureg t = Inr b \<longrightarrow>
                  convert_to ureg enabled (number i) (Input.from_unit i) t = Inl e \<longrightarrow>
                  fst (Converter_convert ureg enabled c i) = Inl (PintError e))"
proof -
  have dest: "fst (destination_units c i) = [t]"
    using assms by (simp add: destination_units_explicit)
  have res: "fst (Converter_convert ureg enabled c i) =
     (case ureg_Quantity ureg (number i) (Input.from_unit i) of
        Inl err \<Rightarrow> Inl (PintError err)
      | Inr qty \<Rightarrow> convert_loop ureg enabled i [t])"
    by (simp add: convert_result dest split: sum.splits)
  have not_none: "fst (Converter_convert ureg enabled c i) \<noteq> Inl NoToUnits"
    by (auto simp: res split: sum.splits pint_error.splits)
  have one: "\<exists>conv. cs = [conv] \<and> Conversion.to_unit conv = t"
    if "fst (Converter_convert ureg enabled c i) = Inr cs" for cs
  proof -
    from that have "convert_loop ureg enabled i [t] = Inr cs"
      by (auto simp: res split: sum.splits)
    from convert_loop_results [OF this] have "map Conversion.to_unit cs = [t]" by simp
    then show ?thesis by (cases cs) auto
  qed
  have ok: "fst (Converter_convert ureg enabled c i) =
                    Inr [\<lparr>from_number = number i, from_unit = Input.from_unit i,
                          to_number = v, to_unit = t,
                          dimensionality = Input.dimensionality i\<rparr>]"
    if "unit_info ureg (Input.from_unit i) = Inr a" and "unit_info ureg t = Inr b"
      and "convert_to ureg enabled (number i) (Input.from_unit i) t = Inr v" for a b v
    using that by (cases a, cases b) (simp add: res ureg_Quantity_def)
  have no_from: "fst (Converter_convert ureg enabled c i) = Inl (PintError e)"
    if "unit_info ureg (Input.from_unit i) = Inl e" for e
    using that by (simp add: res ureg_Quantity_def)
  have no_to: "fst (Converter_convert ureg enabled c i) =
                  Inl (case e of
                         UndefinedUnitError x \<Rightarrow> ValueError (''Unknown unit: '' @ t)
                       | DimensionalityError x y \<Rightarrow> PintError e
                       | OtherPintError x \<Rightarrow> PintError e)"
    if "unit_info ureg (Input.from_unit i) = Inr a" and "unit_info ureg t = Inl e" for a e
    using that by (cases a, cases e) (simp_all add: res ureg_Quantity_def)
  have no_conv: "fst (Converter_convert ureg enabled c i) = Inl (PintError e)"
    if "unit_info ureg (Input.from_unit i) = Inr a" and "unit_info ureg t = Inr b"
      and "convert_to ureg enabled (number i) (Input.from_unit i) t = Inl e" for a b e
    using that by (cases a, cases b) (simp add: res ureg_Quantity_def)
  from not_none one ok no_from no_to no_conv show ?thesis by blast
qed

text \<open>
  Claim C3. For every Input without a \<open>to_unit\<close>: when the units saved for its
  dimensionality, with those equal to \<open>from_unit\<close> removed, are none, \<open>convert\<close>
  fails with \<open>NoToUnits\<close>, whatever the registry.
\<close>

theorem convert_no_destination:
  assumes "Input.to_unit i = None"
    and "filter (\<lambda>u. u \<noteq> Input.from_unit i)
           (saved_units (defaults c) (Input.dimensionality i)) = []"
  shows "fst (Converter_convert ureg enabled c i) = Inl NoToUnits"
  using assms by (simp add: convert_result destination_units_defaults)

text \<open>
  Claim C8. Whenever \<open>convert\<close> returns, every Conversion in the result has the
  Input's dimensionality, its number as \<open>from_number\<close> and its \<open>from_unit\<close>, and
  the \<open>to_unit\<close>s of the result, in order, are the destination units: the explicit
  \<open>to_unit\<close> alone, or else the saved units of the dimensionality in their order,
  without those equal to \<open>from_unit\<close>.
\<close>

theorem convert_results_follow_input:
  assumes "fst (Converter_convert ureg enabled c i) = Inr cs"
  shows "(\<forall>conv \<in> set cs.
            Conversion.dimensionality conv = Input.dimensionality i \<and>
            from_number conv = number i \<and>
            Conversion.from_unit conv = Input.from_unit i) \<and>
         map Conversion.to_unit cs =
           (case Input.to_unit i of
              Some t \<Rightarrow> [t]
            | None \<Rightarrow> filter (\<lambda>u. u \<noteq> Input.from_unit i)
                       (saved_units (defaults c) (Input.dimensionality i)))"
proof -
  from assms have "convert_loop ureg enabled i (fst (destination_units c i)) = Inr cs"
    by (auto simp: convert_result split: if_splits sum.splits)
  from convert_loop_results [OF this] show ?thesis
    by (simp add: destination_units_either)
qed

lemma example_convert_to:
  "convert_to example_ureg enabled v ''kilometer'' ''kilometer'' = Inr v"
  "convert_to example_ureg enabled v ''kilometer'' ''second'' =
     Inl (DimensionalityError ''kilometer'' ''second'')"
  "convert_to example_ureg enabled v ''kilometer'' ''meter'' =
     Inr (float_mul v (decimal_value False 1000 0))"
  "convert_to example_ureg enabled v ''kilometer'' ''mile'' =
     Inr (float_mul v (decimal_value False 621371192237334 (- 15)))"
  by (simp_all add: example_ureg_def example_units_def example_convert_def example_factors_def)

lemma example_products:
  "float_mul five (decimal_value False 1000 0) = Finite False 5497558138880000 (- 40)"
  "float_mul five (decimal_value False 621371192237334 (- 15)) =
     Finite False 6996017674547045 (- 51)"
  by (simp_all add: five_def decimal_value_def float_of_frac_eval)

lemma example_unknown:
  "unit_info example_ureg ''zzz'' = Inl (UndefinedUnitError ''zzz'')"
  by (simp add: example_ureg_def example_units_def)

theorem convert_explicit_destination_counterexample:
  "Input.to_unit km_to_second = Some ''second'' \<and>
   fst (Converter_convert example_ureg [] (default_converter (Defaults_init fresh_settings))
          km_to_second) =
     Inl (PintError (DimensionalityError ''kilometer'' ''second'')) \<and>
   Input.to_unit km_to_unknown = Some ''zzz'' \<and>
   fst (Converter_convert example_ureg [] (default_converter (Defaults_init fresh_settings))
          km_to_unknown) =
     Inl (ValueError ''Unknown unit: zzz'')"
  by (simp add: convert_result destination_units_explicit km_to_second_def km_to_unknown_def
      ureg_Quantity_def example_unit_info example_unknown example_convert_to)

theorem convert_explicit_destination_witness:
  "Input.to_unit km_to_km = Some (Input.from_unit km_to_km) \<and>
   fst (Converter_convert example_ureg [] (default_converter (Defaults_init fresh_settings))
          km_to_km) =
     Inr [\<lparr>from_number = five, from_unit = ''kilometer'', to_number = five,
           to_unit = ''kilometer'', dimensionality = ''[length]''\<rparr>] \<and>
   fst (Converter_convert example_ureg [] (default_converter (Defaults_init fresh_settings))
          km_to_unknown) =
     Inl (ValueError ''Unknown unit: zzz'') \<and>
   fst (Converter_convert example_ureg [] (default_converter (Defaults_init fresh_settings))
          km_to_second) =
     Inl (PintError (DimensionalityError ''kilometer'' ''second'')) \<and>
   fst (Converter_convert example_ureg [] (default_converter (Defaults_init fresh_settings))
          \<lparr>number = five, dimensionality = ''[length]'', from_unit = ''zzz'',
            to_unit = Some ''kilometer'', context = []\<rparr>) =
     Inl (PintError (UndefinedUnitError ''zzz''))"
proof -
  have t: "Input.to_unit km_to_km = Some ''kilometer''"
    and f: "Input.from_unit km_to_km = ''kilometer''"
    and n: "number km_to_km = five"
    and d: "Input.dimensionality km_to_km = ''[length]''"
    by (simp_all add: km_to_km_def)
  have returns: "fst (Converter_convert example_ureg []
        (default_converter (Defaults_init fresh_settings)) km_to_km) =
     Inr [\<lparr>from_number = five, from_unit = ''kilometer'', to_number = five,
           to_unit = ''kilometer'', dimensionality = ''[length]''\<rparr>]"
    using convert_explicit_destination [OF t, of example_ureg "[]"
      "default_converter (Defaults_init fresh_settings)"]
    by (simp add: t f n d example_unit_info example_convert_to)
  have unknown: "fst (Converter_convert example_ureg []
        (default_converter (Defaults_init fresh_settings))
        km_to_unknown) = Inl (ValueError ''Unknown unit: zzz'')"
    using convert_explicit_destination [of km_to_unknown "''zzz''"
      example_ureg "[]" "default_converter (Defaults_init fresh_settings)"]
    by (simp add: km_to_unknown_def example_unit_info example_unknown)
  have incompatible: "fst (Converter_convert example_ureg []
        (default_converter (Defaults_init fresh_settings))
        km_to_second) =
      Inl (PintError (DimensionalityError ''kilometer'' ''second''))"
    using convert_explicit_destination [of km_to_second
      "''second''" example_ureg "[]" "default_converter (Defaults_init fresh_settings)"]
    by (simp add: km_to_second_def example_unit_info example_convert_to)
  have no_source: "fst (Converter_convert example_ureg []
        (default_converter (Defaults_init fresh_settings))
        \<lparr>number = five, dimensionality = ''[length]'', from_unit = ''zzz'',
          to_unit = Some ''kilometer'', context = []\<rparr>) =
      Inl (PintError (UndefinedUnitError ''zzz''))"
    using convert_explicit_destination [of
      "\<lparr>number = five, dimensionality = ''[length]'', from_unit = ''zzz'',
        to_unit = Some ''kilometer'', context = []\<rparr>"
      "''kilometer''" example_ureg "[]" "default_converter (Defaults_init fresh_settings)"]
    by (simp add: example_unknown)
  from t f returns unknown incompatible no_source show ?thesis by simp
qed

theorem convert_no_destination_witness:
  "Input.to_unit km_alone = None \<and>
   saved_units (Defaults_init fresh_settings) (Input.dimensionality km_alone) = [] \<and>
   fst (Converter_convert example_ureg [] (default_converter (Defaults_init fresh_settings))
          km_alone) = Inl NoToUnits"
proof -
  have t: "Input.to_unit km_alone = None" by (simp add: km_alone_def)
  have s: "saved_units (defaults (default_converter (Defaults_init fresh_settings)))
             (Input.dimensionality km_alone) = []"
    by (simp add: default_converter_def saved_units_fresh)
  from convert_no_destination [OF t, of "default_converter (Defaults_init fresh_settings)"
      example_ureg "[]"] s t
  show ?thesis by (simp add: saved_units_fresh)
qed

lemma saved_units_three_saved:
  "saved_units three_saved ''[length]'' = [''meter'', ''kilometer'', ''mile'']"
proof -
  have m: "''meter'' \<notin> set (saved_units (Defaults_init fresh_settings) ''[length]'')"
    by (simp add: saved_units_fresh)
  define s1 where "s1 = Defaults_add (Defaults_init fresh_settings) ''[length]'' ''meter''"
  have a1: "saved_units s1 ''[length]'' = [''meter'']"
    using Defaults_add_appends [OF m] by (simp add: s1_def saved_units_fresh)
  define s2 where "s2 = Defaults_add s1 ''[length]'' ''kilometer''"
  have a2: "saved_units s2 ''[length]'' = [''meter'', ''kilometer'']"
    using Defaults_add_appends [of "''kilometer''" s1 "''[length]''"] by (simp add: s2_def a1)
  have a3: "saved_units (Defaults_add s2 ''[length]'' ''mile'') ''[length]'' =
      [''meter'', ''kilometer'', ''mile'']"
    using Defaults_add_appends [of "''mile''" s2 "''[length]''"] by (simp add: a2)
  then show ?thesis by (simp add: three_saved_def s1_def s2_def)
qed

theorem convert_results_follow_input_witness:
  "fst (Converter_convert example_ureg [] (default_converter three_saved) km_alone) =
     Inr [\<lparr>from_number = five, from_unit = ''kilometer'',
           to_number = Finite False 5497558138880000 (- 40), to_unit = ''meter'',
           dimensionality = ''[length]''\<rparr>,
          \<lparr>from_number = five, from_unit = ''kilometer'',
           to_number = Finite False 6996017674547045 (- 51), to_unit = ''mile'',
           dimensionality = ''[length]''\<rparr>] \<and>
   saved_units three_saved ''[length]'' = [''meter'', ''kilometer'', ''mile'']"
proof -
  have fields: "Input.to_unit km_alone = None" "Input.from_unit km_alone = ''kilometer''"
    "number km_alone = five" "Input.dimensionality km_alone = ''[length]''"
    by (simp_all add: km_alone_def)
  have dest: "fst (destination_units (default_converter three_saved) km_alone) =
      [''meter'', ''mile'']"
    by (simp add: destination_units_either fields default_converter_def
        saved_units_three_saved)
  have r: "fst (Converter_convert example_ureg [] (default_converter three_saved) km_alone) =
     Inr [\<lparr>from_number = five, from_unit = ''kilometer'',
           to_number = Finite False 5497558138880000 (- 40), to_unit = ''meter'',
           dimensionality = ''[length]''\<rparr>,
          \<lparr>from_number = five, from_unit = ''kilometer'',
           to_number = Finite False 6996017674547045 (- 51), to_unit = ''mile'',
           dimensionality = ''[length]''\<rparr>]"
    by (simp add: convert_result dest fields ureg_Quantity_def example_unit_info
        example_convert_to example_products)
  from convert_results_follow_input [OF r] r saved_units_three_saved show ?thesis
    by simp
qed

section \<open>The formatter\<close>

lemmas digits_of_eval =
  digits_of.simps [of 0] digits_of.simps [of "Suc 0"] digits_of.simps [of "numeral k" for k]
  digit_char_def

lemmas shortest_digits_eval =
  shortest_digits.simps [where m = "numeral p" and n = 1 for p]
  shortest_digits.simps [where m = "numeral p" and n = "numeral k" for p k]

lemmas float_repr_eval =
  float_repr.simps repr_digits_def repr_layout_def pad2_def strip_zeros_def floor_log10_def
  repr_scale_def repr_below_def below_is_nearer_def reads_back_def repr_choose_def
  repr_try_at_def repr_try_def repr_nearest_at_def repr_nearest_def decimal_value_def

lemmas format_f_eval = format_f.simps fixed_layout_def group_thousands_def zero_fill_def div_half_even_def
  round_quotient_def

lemma replicate_numeral_eval: "replicate (numeral k) x = x # replicate (pred_numeral k) x"
  by (simp add: numeral_eq_Suc)

lemma py_float_1234_5: "py_float ''1234.5'' = Some f1234_5"
  by (simp add: py_float_eval float_of_frac_eval f1234_5_def)

lemma py_float_zero: "py_float ''0.0'' = Some (Finite False 0 0)"
  by (simp add: py_float_eval float_of_frac_eval)

lemma times_100: "float_mul_int f1234_5 100 = Inr (Finite False 8483419403059200 (- 36))"
  by (simp add: f1234_5_def float_mul_int_def float_of_int_def float_of_frac_eval)

lemma repr_123450: "float_repr (Finite False 8483419403059200 (- 36)) = ''123450.0''"
  by (simp add: float_repr_eval shortest_digits_eval float_of_frac_eval digits_of_eval
      replicate_numeral_eval)

lemma format_1234_5: "format_f True 2 f1234_5 = ''1,234.50''"
  by (simp add: f1234_5_def format_f_eval digits_of_eval)

lemma zeroes_loop_0: "zeroes_loop ''0'' 2 = 1"
  by (simp add: zeroes_loop.simps [of "''0''"] zeroes_loop.simps [of "[]"])

lemma places_1234_5:
  "Formatter_decimal_places
     \<lparr>decimal_places = 2, decimal_separator = ds, thousands_separator = ts,
      dynamic_decimals = dynamic\<rparr> f1234_5 = Inr 2"
proof (cases dynamic)
  case False
  then show ?thesis by (simp add: Formatter_decimal_places_def)
next
  case True
  have nz: "\<not> float_eq_zero f1234_5" by (simp add: f1234_5_def)
  have loop: "places_loop f1234_5 11 2 None = Inr (2, Some (Finite False 8483419403059200 (- 36)))"
    by (simp add: places_loop.simps [of _ 11 2] times_100)
  have trimmed: "places_of_text f 2 ''123450.0'' = 2" if "decimal_places f = 2" for f
    using that by (simp add: places_of_text_def zeroes_loop_0)
  from True nz show ?thesis
    by (simp add: Formatter_decimal_places_def loop repr_123450 trimmed)
qed

text \<open>
  Claim C5. With two decimal places, decimal separator \<open>,\<close> and thousands separator
  \<open>.\<close>, \<open>formatted(1234.5)\<close> returns \<open>1.234,50\<close>, with
  \<open>dynamic_decimals\<close> on or off. The number is first written \<open>1,234.50\<close>; the
  comma and the point are then exchanged through the two placeholders.
\<close>

theorem formatted_1234_5:
  "py_float ''1234.5'' = Some f1234_5 \<and>
   format_f True 2 f1234_5 = ''1,234.50'' \<and>
   Formatter_formatted
     \<lparr>decimal_places = 2, decimal_separator = '','', thousands_separator = ''.'',
      dynamic_decimals = dynamic\<rparr> f1234_5 None = Inr ''1.234,50''"
  by (simp add: py_float_1234_5 format_1234_5 Formatter_formatted_def places_1234_5
      with_unit_def format_fixed_def)

theorem formatted_1234_5_witness:
  "Formatter_formatted
     \<lparr>decimal_places = 2, decimal_separator = '','', thousands_separator = ''.'',
      dynamic_decimals = True\<rparr> f1234_5 None = Inr ''1.234,50'' \<and>
   Formatter_formatted
     \<lparr>decimal_places = 2, decimal_separator = '','', thousands_separator = ''.'',
      dynamic_decimals = False\<rparr> f1234_5 None = Inr ''1.234,50''"
  using formatted_1234_5 [of True] formatted_1234_5 [of False] by simp

lemma format_f_zero:
  "format_f grouping p (Finite s 0 0) =
     (if s then ''-'' else '''') @ ''0'' @ (if p = 0 then [] else ''.'' @ replicate p CHR ''0'')"
proof (cases p)
  case 0
  then show ?thesis by (simp add: format_f_eval digits_of_eval)
next
  case (Suc k)
  then show ?thesis
    by (simp add: format_f_eval digits_of_eval replicate_append_same)
qed

text \<open>
  Claim C6. For every Formatter, the number of decimal places chosen for \<open>0.0\<close>
  (and for \<open>-0.0\<close>) is \<open>decimal_places\<close>, whatever \<open>dynamic_decimals\<close> is.
  \<open>formatted\<close> formats the zero with exactly that precision: its result is that of
  the format call with precision \<open>decimal_places\<close>, with the separators put in,
  and that call writes exactly \<open>decimal_places\<close> zeros after the point, or refuses
  a precision above \<open>2147483647\<close> with its \<open>ValueError\<close>.
\<close>

theorem decimal_places_of_zero:
  "py_float ''0.0'' = Some (Finite False 0 0) \<and>
   Formatter_decimal_places f (Finite s 0 0) = Inr (decimal_places f) \<and>
   Formatter_formatted f (Finite s 0 0) unit =
     (case format_fixed (Formatter.thousands_separator f \<noteq> []) (decimal_places f)
             (Finite s 0 0) of
        Inl err \<Rightarrow> Inl err
      | Inr num \<Rightarrow>
          Inr (with_unit
                (replace ''||point||'' (Formatter.decimal_separator f)
                  (replace ''||comma||'' (Formatter.thousands_separator f)
                    (replace ''.'' ''||point||'' (replace '','' ''||comma||'' num))))
                unit)) \<and>
   format_fixed grouping (decimal_places f) (Finite s 0 0) =
     (if 9223372036854775807 < decimal_places f
        then Inl (ValueError ''Too many decimal digits in format string'')
      else if 2147483647 < decimal_places f then Inl (ValueError ''precision too big'')
      else Inr ((if s then ''-'' else []) @ ''0'' @
                (if decimal_places f = 0 then []
                 else ''.'' @ replicate (decimal_places f) CHR ''0'')))"
  by (simp add: py_float_zero Formatter_decimal_places_def Formatter_formatted_def
      format_fixed_def format_f_zero)

theorem decimal_places_of_zero_witness:
  "Formatter_decimal_places
     \<lparr>decimal_places = 2, decimal_separator = ''.'', thousands_separator = '','',
      dynamic_decimals = True\<rparr> (Finite False 0 0) = Inr 2 \<and>
   Formatter_formatted
     \<lparr>decimal_places = 2, decimal_separator = ''.'', thousands_separator = '','',
      dynamic_decimals = True\<rparr> (Finite False 0 0) None = Inr ''0.00'' \<and>
   Formatter_formatted
     \<lparr>decimal_places = 2147483648, decimal_separator = ''.'', thousands_separator = '','',
      dynamic_decimals = True\<rparr> (Finite False 0 0) None =
     Inl (ValueError ''precision too big'')"
  using decimal_places_of_zero [of
      "\<lparr>decimal_places = 2, decimal_separator = ''.'', thousands_separator = '','',
        dynamic_decimals = True\<rparr>" False None True]
    decimal_places_of_zero [of
      "\<lparr>decimal_places = 2147483648, decimal_separator = ''.'', thousands_separator = '','',
        dynamic_decimals = True\<rparr>" False None True]
  by (simp add: with_unit_def replicate_numeral_eval)

end
